theory Spec2Isabelle
  imports Complex_Main "HOL-Library.Word" "HOL-Library.Sublist"
begin

section \<open>Data of the Proofly MCP server (src/server.js)\<close>

text \<open>
  The server is a Node.js script. Its handlers are modelled as functions from the tool
  arguments and the remote service to an outcome and the list of network calls and
  waits made, in order. Logging to stderr (\<open>logInfo\<close>, \<open>logError\<close>) is the only effect
  left out. The three handlers modelled are \<open>handleAnalyzeImage\<close>,
  \<open>handleAnalyzeImageUrl\<close> and \<open>handleGetFaceDetails\<close>; each throws \<open>McpError\<close> only,
  which the dispatcher of lines 238 to 259 passes on as it is.

  The tool arguments and the bodies of the remote service have the types that the tool
  schemas and the remote interface give them; only \<open>faceIndex\<close>, whose type the handler
  tests itself, is an arbitrary value. A string is a list of characters.

  Numbers are modelled by their real values: a comparison of two doubles is exact, and
  the literals \<open>0.8\<close> and \<open>0.2\<close> of the source are written as they are. The products
  with 100 in the texts are exact in the model and rounded in the program; they only
  reach the formatting function, which is a parameter.
\<close>

type_synonym bytes = "8 word list"

text \<open>A tool argument that the handler inspects with \<open>typeof\<close>: any JSON value, or absent.\<close>

datatype jsval =
    JUndefined
  | JNull
  | JBool bool
  | JNum real
  | JStr string
  | JArr "jsval list"
  | JObj "(string \<times> jsval) list"

text \<open>\<open>typeof v === 'number'\<close>\<close>

fun is_number :: "jsval \<Rightarrow> bool" where
  "is_number (JNum _) = True"
| "is_number _ = False"

text \<open>
  The payload of the remote service, with the fields the source reads: a face of an
  analysis result, the result, and the body of a status reply. A field that is absent
  is \<open>None\<close>; for the score \<open>ansamble\<close>, which the source tests against both, \<open>None\<close> is
  \<open>undefined\<close> or \<open>null\<close>. \<open>is_real_model\<close> lists the numbered fields
  \<open>is_real_model_1\<close>, \<open>is_real_model_2\<close>, ... that are present.
\<close>

record face =
  ansamble :: "real option"
  is_real_model :: "(nat \<times> real) list"
  face_path :: "string option"

record analysis_result =
  uuid :: "string option"
  sha256 :: "string option"
  status :: "string option"
  message :: "string option"
  faces :: "face list option"
  total_faces :: "nat option"

record status_data =
  st_status :: "string option"
  st_result :: "analysis_result option"
  st_message :: "string option"

text \<open>
  An axios call resolves with the body of the response, or rejects with an error that
  has a message and, when the server answered, the HTTP status of the response.
\<close>

datatype 'a reply = Ok 'a | Fail "nat option" string

text \<open>
  The remote service as one tool invocation sees it. The status endpoint is asked
  repeatedly: \<open>http_get_status R url k\<close> is the reply to the request number \<open>k\<close>
  (from 0) for \<open>url\<close>. An image download gives the bytes and the content-type header.
  An upload sends the bytes, the file name and the content type to a URL and answers
  with a body whose field \<open>uuid\<close> is read; the content type is \<open>None\<close> when the value
  the source passes is not a string.
\<close>

record remote =
  http_get_image :: "string \<Rightarrow> (bytes \<times> string option) reply"
  http_post_upload :: "string \<Rightarrow> bytes \<Rightarrow> string \<Rightarrow> string option \<Rightarrow> string option reply"
  http_get_status :: "string \<Rightarrow> nat \<Rightarrow> status_data reply"
  http_get_result :: "string \<Rightarrow> analysis_result reply"

text \<open>The network calls and the waits of a handler, in the order they are made.\<close>

datatype call =
    Download string
  | Upload string bytes string "string option"
  | Sleep nat
  | GetStatus string
  | GetResult string

text \<open>The error codes the source names, and the error a handler throws.\<close>

datatype errcode = InvalidParams | ServerError | NotFound

datatype mcp_error = McpError errcode string

text \<open>What is thrown inside a \<open>try\<close> block of a handler, before the \<open>catch\<close> wraps it.\<close>

datatype exn =
    Error string
  | AxiosError "nat option" string
  | TypeError string
  | McpExn errcode string

text \<open>
  The parts of the JavaScript runtime and of the MCP SDK that the source calls and that
  are not in the repository: they are parameters of the model.
\<close>

record js_runtime =
  base64_decode :: "string \<Rightarrow> bytes"
  toFixed2 :: "real \<Rightarrow> string"
  num_str :: "real \<Rightarrow> string"
  buffer_from_undefined :: string
  read_of_undefined :: "string \<Rightarrow> string"
  mcp_message :: "errcode \<Rightarrow> string \<Rightarrow> string"

text \<open>\<open>error.message\<close> and \<open>error.response.status\<close> of what was thrown.\<close>

fun exn_message :: "js_runtime \<Rightarrow> exn \<Rightarrow> string" where
  "exn_message js (Error m) = m"
| "exn_message js (AxiosError c m) = m"
| "exn_message js (TypeError m) = m"
| "exn_message js (McpExn c m) = mcp_message js c m"

fun exn_response_status :: "exn \<Rightarrow> nat option" where
  "exn_response_status (AxiosError c m) = c"
| "exn_response_status _ = None"

text \<open>The output of a handler: a text, or the value that \<open>JSON.stringify\<close> is given.\<close>

datatype tool_output =
    Text string
  | JsonResult analysis_result
  | JsonFace face
  | JsonUndefined

type_synonym 'a effect = "'a \<times> call list"

text \<open>Sequencing inside a \<open>try\<close> block: the first exception ends the block.\<close>

definition andThen :: "(exn + 'a) effect \<Rightarrow> ('a \<Rightarrow> (exn + 'b) effect) \<Rightarrow> (exn + 'b) effect" where
  "andThen m f =
     (case m of
        (Inl e, cs) \<Rightarrow> (Inl e, cs)
      | (Inr a, cs) \<Rightarrow> (case f a of (r, cs') \<Rightarrow> (r, cs @ cs')))"

section \<open>Configuration and helpers\<close>

record config =
  baseUrl :: string
  maxRetries :: nat
  retryInterval :: nat

definition PROOFLY_CONFIG :: config where
  "PROOFLY_CONFIG = \<lparr> baseUrl = ''https://api.proofly.ai'', maxRetries = 60, retryInterval = 2000 \<rparr>"

text \<open>A string or an absent value in a template literal.\<close>

fun str_of :: "string option \<Rightarrow> string" where
  "str_of None = ''undefined''"
| "str_of (Some s) = s"

text \<open>\<open>!v\<close> for an optional string: absent or empty.\<close>

fun falsy :: "string option \<Rightarrow> bool" where
  "falsy None = True"
| "falsy (Some s) = (s = [])"

text \<open>\<open>s.split(c)\<close> for a separator of one character.\<close>

fun split_on :: "char \<Rightarrow> string \<Rightarrow> string list" where
  "split_on c [] = [[]]"
| "split_on c (x # xs) =
     (if x = c then [] # split_on c xs
      else (case split_on c xs of
              [] \<Rightarrow> [[x]]
            | w # ws \<Rightarrow> (x # w) # ws))"

text \<open>\<open>getVerdict\<close>, lines 61 to 70; an absent score is \<open>null\<close> or \<open>undefined\<close>.\<close>

definition getVerdict :: "real option \<Rightarrow> string" where
  "getVerdict probability =
     (case probability of
        None \<Rightarrow> ''Uncertain (no score)''
      | Some p \<Rightarrow>
          if p > 0.8 then ''Likely Real''
          else if p < 0.2 then ''Likely Fake''
          else ''Uncertain'')"

section \<open>The poll loop, lines 302 to 319 and 400 to 417\<close>

text \<open>
  The two analyze handlers hold the same loop, statement for statement. Its variables
  are \<open>status\<close>, \<open>attempts\<close> and \<open>analysisResult\<close>.
\<close>

record poll_state =
  cur_status :: "string option"
  attempts :: nat
  analysisResult :: "analysis_result option"

text \<open>The condition of the \<open>while\<close>.\<close>

definition polling :: "string option \<Rightarrow> bool" where
  "polling s = (s = Some ''in progress'' \<or> s = Some ''processing'' \<or> s = Some ''pending'')"

text \<open>
  \<open>replies\<close> are the replies of the status endpoint still to come; one iteration takes
  the first. The loop ends by the condition, by the attempt bound or by a failed request.
\<close>

function pollStatus ::
  "config \<Rightarrow> string \<Rightarrow> (nat \<Rightarrow> status_data reply) \<Rightarrow> poll_state \<Rightarrow> (exn + poll_state) effect" where
  "pollStatus cfg url replies st =
     (if polling (cur_status st) then
        if attempts st \<ge> maxRetries cfg then
          (Inl (Error ''Maximum retry attempts reached for status check.''), [])
        else
          (case replies 0 of
             Fail c m \<Rightarrow> (Inl (AxiosError c m), [Sleep (retryInterval cfg), GetStatus url])
           | Ok d \<Rightarrow>
               (case pollStatus cfg url (\<lambda>k. replies (Suc k))
                       \<lparr> cur_status = st_status d,
                         attempts = attempts st + 1,
                         analysisResult =
                           (case st_result d of Some r \<Rightarrow> Some r | None \<Rightarrow> analysisResult st) \<rparr> of
                  (r, cs) \<Rightarrow> (r, Sleep (retryInterval cfg) # GetStatus url # cs)))
      else (Inr st, []))"
  by pat_completeness auto
termination
  by (relation "measure (\<lambda>(cfg, url, replies, st). maxRetries cfg - attempts st)") auto

declare pollStatus.simps [simp del]

section \<open>After the loop, lines 321 to 340 and 419 to 438\<close>

text \<open>The result the source builds when the status says that no face was found.\<close>

definition noFacesResult :: "string \<Rightarrow> analysis_result" where
  "noFacesResult u =
     \<lparr> uuid = Some u, sha256 = None, status = Some ''no_faces_found'',
       message = Some ''No faces detected in the image.'', faces = Some [], total_faces = Some 0 \<rparr>"

text \<open>\<open>axios.get\<close> of the full result of a session.\<close>

definition fetchResult :: "remote \<Rightarrow> string \<Rightarrow> (exn + analysis_result) effect" where
  "fetchResult R url =
     (case http_get_result R url of
        Ok d \<Rightarrow> (Inr d, [GetResult url])
      | Fail c m \<Rightarrow> (Inl (AxiosError c m), [GetResult url]))"

text \<open>
  The first \<open>if\<close> replaces \<open>analysisResult\<close> or throws; the second fetches the result
  when there is still none.
\<close>

definition finalResult :: "config \<Rightarrow> remote \<Rightarrow> string \<Rightarrow> poll_state \<Rightarrow> (exn + analysis_result) effect" where
  "finalResult cfg R u st =
     andThen
       (if cur_status st \<noteq> Some ''done'' \<and> cur_status st \<noteq> Some ''completed''
           \<and> analysisResult st = None then
          if cur_status st = Some ''no_faces_found'' \<or> cur_status st = Some ''no faces found'' then
            (Inr (Some (noFacesResult u)), [])
          else
            (Inl (Error (''Analysis did not complete successfully. Last status: ''
                          @ str_of (cur_status st))), [])
        else (Inr (analysisResult st), []))
       (\<lambda>res. case res of
                Some r \<Rightarrow> (Inr r, [])
              | None \<Rightarrow> fetchResult R (baseUrl cfg @ ''/api/'' @ u))"

section \<open>Upload and session, lines 282 to 340 and 380 to 438\<close>

definition uploadImage ::
  "config \<Rightarrow> remote \<Rightarrow> bytes \<Rightarrow> string \<Rightarrow> string option \<Rightarrow> (exn + string option) effect" where
  "uploadImage cfg R imageBuffer fname ctype =
     (case http_post_upload R (baseUrl cfg @ ''/api/upload'') imageBuffer fname ctype of
        Ok body \<Rightarrow> (Inr body, [Upload (baseUrl cfg @ ''/api/upload'') imageBuffer fname ctype])
      | Fail c m \<Rightarrow>
          (Inl (AxiosError c m), [Upload (baseUrl cfg @ ''/api/upload'') imageBuffer fname ctype]))"

text \<open>
  From the check of the session identifier to the final result: the loop starts with
  \<open>status = 'in progress'\<close>, no attempt and no result.
\<close>

definition awaitAnalysis :: "config \<Rightarrow> remote \<Rightarrow> string option \<Rightarrow> (exn + analysis_result) effect" where
  "awaitAnalysis cfg R body =
     (if falsy body then
        (Inl (Error ''No session UUID returned from Proofly API after upload''), [])
      else
        andThen
          (pollStatus cfg (baseUrl cfg @ ''/api/'' @ str_of body @ ''/status'')
             (http_get_status R (baseUrl cfg @ ''/api/'' @ str_of body @ ''/status''))
             \<lparr> cur_status = Some ''in progress'', attempts = 0, analysisResult = None \<rparr>)
          (finalResult cfg R (str_of body)))"

definition submit ::
  "config \<Rightarrow> remote \<Rightarrow> bytes \<Rightarrow> string \<Rightarrow> string option \<Rightarrow> (exn + analysis_result) effect" where
  "submit cfg R imageBuffer fname ctype =
     andThen (uploadImage cfg R imageBuffer fname ctype) (awaitAnalysis cfg R)"

section \<open>Rendering, lines 44 to 122\<close>

text \<open>\<open>s.toLowerCase()\<close> on the letters A to Z.\<close>

definition lower_char :: "char \<Rightarrow> char" where
  "lower_char c =
     (case map_of (zip ''ABCDEFGHIJKLMNOPQRSTUVWXYZ'' ''abcdefghijklmnopqrstuvwxyz'') c of
        Some l \<Rightarrow> l
      | None \<Rightarrow> c)"

text \<open>The last element of a split; a split is never empty.\<close>

fun last_part :: "string list \<Rightarrow> string" where
  "last_part [] = []"
| "last_part [w] = w"
| "last_part (w # ws) = last_part ws"

definition contentTypes :: "(string \<times> string) list" where
  "contentTypes =
     [(''jpg'', ''image/jpeg''), (''jpeg'', ''image/jpeg''), (''png'', ''image/png''),
      (''gif'', ''image/gif''), (''webp'', ''image/webp''), (''bmp'', ''image/bmp''),
      (''tiff'', ''image/tiff''), (''tif'', ''image/tiff'')]"

text \<open>
  \<open>getContentTypeFromFilename\<close>, lines 45 to 58. The table is an object literal, so the
  two lower-case names it inherits from \<open>Object.prototype\<close> are found as well; what they
  give is not a string, and the result is \<open>None\<close> there.
\<close>

definition getContentTypeFromFilename :: "string \<Rightarrow> string option" where
  "getContentTypeFromFilename fname =
     (let extension = map lower_char (last_part (split_on CHR ''.'' fname)) in
      case map_of contentTypes extension of
        Some t \<Rightarrow> Some t
      | None \<Rightarrow>
          if extension = ''constructor'' \<or> extension = ''__proto__'' then None
          else Some ''application/octet-stream'')"

text \<open>\<open>s.includes(pat)\<close> and \<open>s.replace(pat, rep)\<close> with a string pattern: the first match.\<close>

fun includes_str :: "string \<Rightarrow> string \<Rightarrow> bool" where
  "includes_str pat [] = (pat = [])"
| "includes_str pat (c # cs) = (prefix pat (c # cs) \<or> includes_str pat cs)"

fun replace_first :: "string \<Rightarrow> string \<Rightarrow> string \<Rightarrow> string" where
  "replace_first pat rep [] = (if pat = [] then rep else [])"
| "replace_first pat rep (c # cs) =
     (if prefix pat (c # cs) then rep @ drop (length pat) (c # cs)
      else c # replace_first pat rep cs)"

definition faceImageUrl :: "config \<Rightarrow> string \<Rightarrow> string" where
  "faceImageUrl cfg p =
     (if includes_str ''ai./'' (baseUrl cfg @ p) then replace_first ''ai./'' ''ai/'' (baseUrl cfg @ p)
      else baseUrl cfg @ p)"

text \<open>The loop over the model numbers 1 to 10.\<close>

definition modelLines :: "js_runtime \<Rightarrow> face \<Rightarrow> string" where
  "modelLines js f =
     concat (map (\<lambda>i. case map_of (is_real_model f) i of
                         Some m \<Rightarrow> ''  - Model '' @ num_str js (real i) @ '': ''
                                     @ toFixed2 js (m * 100) @ ''%\<newline>''
                       | None \<Rightarrow> [])
                 [1 ..< 11])"

text \<open>
  The lines of one face after its heading: verdict, probabilities, model results and
  image URL. Lines 90 to 110 and lines 525 to 544 write them with the same statements.
\<close>

definition faceBody :: "config \<Rightarrow> js_runtime \<Rightarrow> face \<Rightarrow> string" where
  "faceBody cfg js f =
     ''* Verdict: **'' @ getVerdict (ansamble f) @ ''**\<newline>''
     @ (case ansamble f of
          Some a \<Rightarrow> ''* Probability \"real\": '' @ toFixed2 js (a * 100) @ ''%, \"fake\": ''
                      @ toFixed2 js (100 - a * 100) @ ''%\<newline>''
        | None \<Rightarrow> [])
     @ (if map_of (is_real_model f) 1 \<noteq> None then
          ''* Individual model results:\<newline>'' @ modelLines js f
        else [])
     @ (if falsy (face_path f) then []
        else ''* Face image URL: '' @ faceImageUrl cfg (str_of (face_path f)) @ ''\<newline>'')"

definition faceBlock :: "config \<Rightarrow> js_runtime \<Rightarrow> nat \<Rightarrow> face \<Rightarrow> string" where
  "faceBlock cfg js index f =
     ''**Face '' @ num_str js (real (index + 1)) @ '':**\<newline>'' @ faceBody cfg js f @ ''\<newline>''"

definition formatResultsToHumanReadable ::
  "config \<Rightarrow> js_runtime \<Rightarrow> analysis_result option \<Rightarrow> string" where
  "formatResultsToHumanReadable cfg js result =
     (case result of
        None \<Rightarrow> ''Error: No result to format.''
      | Some r \<Rightarrow>
          ''**Image Analysis Results:**\<newline>''
          @ ''* Session UUID: '' @ (if falsy (uuid r) then ''N/A'' else str_of (uuid r)) @ ''\<newline>''
          @ (if falsy (sha256 r) then [] else ''* SHA256 hash: '' @ str_of (sha256 r) @ ''\<newline>'')
          @ ''* Status: '' @ (if falsy (status r) then ''N/A'' else str_of (status r)) @ ''\<newline>''
          @ (if \<not> falsy (message r)
                \<and> (status r = Some ''no_faces_found'' \<or> status r = Some ''no faces found'') then
               ''* Message: '' @ str_of (message r) @ ''\<newline>''
             else
               (case faces r of
                  Some (f # fs) \<Rightarrow>
                    ''* Faces detected: ''
                    @ num_str js (real (case total_faces r of
                                          Some n \<Rightarrow> if n = 0 then length (f # fs) else n
                                        | None \<Rightarrow> length (f # fs)))
                    @ ''\<newline>\<newline>''
                    @ concat (map (\<lambda>(index, g). faceBlock cfg js index g) (enumerate 0 (f # fs)))
                | _ \<Rightarrow>
                    if status r = Some ''done'' \<or> status r = Some ''completed'' then
                      ''* No faces detected in the image\<newline>\<newline>''
                    else if falsy (message r) then
                      ''* No specific face data available or an issue occurred during processing.\<newline>\<newline>''
                    else []))
          @ ''For unlimited speed access and additional features, register at check.proofly.ai\<newline>'')"

section \<open>The tool handlers\<close>

text \<open>Lines 344 to 348 and 442 to 446: the result as JSON, or as the readable text.\<close>

definition renderResult :: "config \<Rightarrow> js_runtime \<Rightarrow> string option \<Rightarrow> analysis_result \<Rightarrow> tool_output" where
  "renderResult cfg js fmt r =
     (if fmt = Some ''json'' then JsonResult r
      else Text (formatResultsToHumanReadable cfg js (Some r)))"

text \<open>
  Lines 274 to 279: a data URI loses what stands before its first comma, and the rest
  up to the next comma is decoded. Without a comma \<open>split(',')[1]\<close> is \<open>undefined\<close>
  and \<open>Buffer.from\<close> throws.
\<close>

definition decodeImage :: "js_runtime \<Rightarrow> string \<Rightarrow> exn + bytes" where
  "decodeImage js imageBase64 =
     (if prefix ''data:image'' imageBase64 then
        (case split_on CHR '','' imageBase64 of
           w # actualImageBase64 # ws \<Rightarrow> Inr (base64_decode js actualImageBase64)
         | _ \<Rightarrow> Inl (TypeError (buffer_from_undefined js)))
      else Inr (base64_decode js imageBase64))"

text \<open>\<open>handleAnalyzeImage\<close>, lines 262 to 358. The parameter check stands before the \<open>try\<close>.\<close>

definition handleAnalyzeImage ::
  "config \<Rightarrow> js_runtime \<Rightarrow> remote \<Rightarrow> string option \<Rightarrow> string option \<Rightarrow> string option
     \<Rightarrow> (mcp_error + tool_output) effect" where
  "handleAnalyzeImage cfg js R imageBase64 fname fmt =
     (if falsy imageBase64 \<or> falsy fname then
        (Inl (McpError InvalidParams ''Missing imageBase64 or filename parameter''), [])
      else
        (case andThen (decodeImage js (str_of imageBase64), [])
                (\<lambda>imageBuffer. submit cfg R imageBuffer (str_of fname)
                                  (getContentTypeFromFilename (str_of fname))) of
           (Inr r, cs) \<Rightarrow> (Inr (renderResult cfg js fmt r), cs)
         | (Inl e, cs) \<Rightarrow>
             (Inl (McpError ServerError (''Failed to analyze image: '' @ exn_message js e)), cs)))"

fun first_part :: "string list \<Rightarrow> string" where
  "first_part [] = []"
| "first_part (w # ws) = w"

text \<open>Lines 377 and 378: the file name is the last segment of the URL without its query.\<close>

definition originalFilename :: "string \<Rightarrow> string" where
  "originalFilename imageUrl =
     (if first_part (split_on CHR ''?'' (last_part (split_on CHR ''/'' imageUrl))) = [] then ''image.jpg''
      else first_part (split_on CHR ''?'' (last_part (split_on CHR ''/'' imageUrl))))"

definition downloadImage :: "remote \<Rightarrow> string \<Rightarrow> (exn + bytes \<times> string option) effect" where
  "downloadImage R imageUrl =
     (case http_get_image R imageUrl of
        Ok resp \<Rightarrow> (Inr resp, [Download imageUrl])
      | Fail c m \<Rightarrow> (Inl (AxiosError c m), [Download imageUrl]))"

text \<open>\<open>handleAnalyzeImageUrl\<close>, lines 360 to 456.\<close>

definition handleAnalyzeImageUrl ::
  "config \<Rightarrow> js_runtime \<Rightarrow> remote \<Rightarrow> string option \<Rightarrow> string option \<Rightarrow> (mcp_error + tool_output) effect" where
  "handleAnalyzeImageUrl cfg js R imageUrl fmt =
     (if falsy imageUrl then (Inl (McpError InvalidParams ''Missing imageUrl parameter''), [])
      else
        (case andThen (downloadImage R (str_of imageUrl))
                (\<lambda>(imageBuffer, ctype).
                   submit cfg R imageBuffer (originalFilename (str_of imageUrl))
                     (Some (if falsy ctype then ''application/octet-stream'' else str_of ctype))) of
           (Inr r, cs) \<Rightarrow> (Inr (renderResult cfg js fmt r), cs)
         | (Inl e, cs) \<Rightarrow>
             (Inl (McpError ServerError (''Failed to analyze image URL: '' @ exn_message js e)), cs)))"

text \<open>
  \<open>faces[faceIndex]\<close> for a number that passed the range check: an element of the array
  when the number is whole, \<open>undefined\<close> otherwise.
\<close>

definition faceAt :: "face list \<Rightarrow> real \<Rightarrow> face option" where
  "faceAt fs i = (if i = real_of_int \<lfloor>i\<rfloor> then Some (fs ! nat \<lfloor>i\<rfloor>) else None)"

text \<open>Lines 514 to 546, after the result is fetched.\<close>

definition selectFace ::
  "config \<Rightarrow> js_runtime \<Rightarrow> string \<Rightarrow> real \<Rightarrow> string option \<Rightarrow> analysis_result
     \<Rightarrow> (exn + tool_output) effect" where
  "selectFace cfg js sessionUuid faceIndex fmt r =
     (case faces r of
        None \<Rightarrow>
          (Inl (McpExn NotFound
                 (''Face with index '' @ num_str js faceIndex @ '' not found in session ''
                  @ sessionUuid @ ''. Total faces: '' @ num_str js 0 @ ''.'')), [])
      | Some fs \<Rightarrow>
          if faceIndex \<ge> real (length fs) then
            (Inl (McpExn NotFound
                   (''Face with index '' @ num_str js faceIndex @ '' not found in session ''
                    @ sessionUuid @ ''. Total faces: '' @ num_str js (real (length fs)) @ ''.'')), [])
          else if fmt = Some ''json'' then
            (case faceAt fs faceIndex of
               Some specificFace \<Rightarrow> (Inr (JsonFace specificFace), [])
             | None \<Rightarrow> (Inr JsonUndefined, []))
          else
            (case faceAt fs faceIndex of
               Some specificFace \<Rightarrow>
                 (Inr (Text (''**Details for Face '' @ num_str js (faceIndex + 1) @ '' (Session: ''
                             @ sessionUuid @ ''):**\<newline>'' @ faceBody cfg js specificFace)), [])
             | None \<Rightarrow> (Inl (TypeError (read_of_undefined js ''ansamble'')), [])))"

text \<open>
  \<open>handleGetFaceDetails\<close>, lines 500 to 559. The parameter check stands before the
  \<open>try\<close>; the \<open>catch\<close> receives whatever the block throws, the error of line 515 too.
\<close>

definition handleGetFaceDetails ::
  "config \<Rightarrow> js_runtime \<Rightarrow> remote \<Rightarrow> string option \<Rightarrow> jsval \<Rightarrow> string option
     \<Rightarrow> (mcp_error + tool_output) effect" where
  "handleGetFaceDetails cfg js R sessionUuid faceIndex fmt =
     (case faceIndex of
        JNum i \<Rightarrow>
          if falsy sessionUuid \<or> i < 0 then
            (Inl (McpError InvalidParams ''Missing or invalid sessionUuid or faceIndex parameter''), [])
          else
            (case andThen (fetchResult R (baseUrl cfg @ ''/api/'' @ str_of sessionUuid))
                    (selectFace cfg js (str_of sessionUuid) i fmt) of
               (Inr out, cs) \<Rightarrow> (Inr out, cs)
             | (Inl e, cs) \<Rightarrow>
                 if exn_response_status e = Some 404 then
                   (Inl (McpError NotFound
                          (''Session with UUID '' @ str_of sessionUuid
                           @ '' not found when fetching face details.'')), cs)
                 else
                   (Inl (McpError ServerError
                          (''Failed to get face details: '' @ exn_message js e)), cs))
      | _ \<Rightarrow>
          (Inl (McpError InvalidParams ''Missing or invalid sessionUuid or faceIndex parameter''), []))"

section \<open>Notions used to state the properties\<close>

text \<open>A reply of the status endpoint after which the loop asks again.\<close>

definition pending_reply :: "status_data reply \<Rightarrow> bool" where
  "pending_reply r = (case r of Ok d \<Rightarrow> polling (st_status d) | Fail c m \<Rightarrow> False)"

text \<open>The embedded result held after the first \<open>k\<close> replies: the last one that came.\<close>

fun captured ::
  "(nat \<Rightarrow> status_data reply) \<Rightarrow> nat \<Rightarrow> analysis_result option \<Rightarrow> analysis_result option" where
  "captured replies 0 acc = acc"
| "captured replies (Suc k) acc =
     captured (\<lambda>j. replies (Suc j)) k
       (case replies 0 of
          Ok d \<Rightarrow> (case st_result d of Some r \<Rightarrow> Some r | None \<Rightarrow> acc)
        | Fail c m \<Rightarrow> acc)"

text \<open>The calls of \<open>n\<close> iterations of the loop: a wait, then a status request.\<close>

definition rounds :: "config \<Rightarrow> string \<Rightarrow> nat \<Rightarrow> call list" where
  "rounds cfg url n = concat (replicate n [Sleep (retryInterval cfg), GetStatus url])"

fun is_status_call :: "call \<Rightarrow> bool" where
  "is_status_call (GetStatus url) = True"
| "is_status_call c = False"

fun is_result_call :: "call \<Rightarrow> bool" where
  "is_result_call (GetResult url) = True"
| "is_result_call c = False"

definition statusCalls :: "call list \<Rightarrow> nat" where
  "statusCalls cs = length (filter is_status_call cs)"

definition resultCalls :: "call list \<Rightarrow> nat" where
  "resultCalls cs = length (filter is_result_call cs)"

text \<open>The URLs of a session \<open>u\<close>, and the loop of the session from its first state.\<close>

definition uploadUrl :: "config \<Rightarrow> string" where
  "uploadUrl cfg = baseUrl cfg @ ''/api/upload''"

definition statusUrl :: "config \<Rightarrow> string \<Rightarrow> string" where
  "statusUrl cfg u = baseUrl cfg @ ''/api/'' @ u @ ''/status''"

definition resultUrl :: "config \<Rightarrow> string \<Rightarrow> string" where
  "resultUrl cfg u = baseUrl cfg @ ''/api/'' @ u"

definition initial_state :: poll_state where
  "initial_state = \<lparr> cur_status = Some ''in progress'', attempts = 0, analysisResult = None \<rparr>"

definition pollSession :: "config \<Rightarrow> remote \<Rightarrow> string \<Rightarrow> (exn + poll_state) effect" where
  "pollSession cfg R u =
     pollStatus cfg (statusUrl cfg u) (http_get_status R (statusUrl cfg u)) initial_state"

text \<open>
  The characters of a base64 payload: the alphabets of RFC 4648, the padding sign and
  white space.
\<close>

definition base64_char :: "char \<Rightarrow> bool" where
  "base64_char c =
     (c \<in> set ''ABCDEFGHIJKLMNOPQRSTUVWXYZabcdefghijklmnopqrstuvwxyz0123456789+/=-_''
      \<or> c = CHR '' '' \<or> c = CHR 0x0A \<or> c = CHR 0x0D \<or> c = CHR 0x09)"

definition base64_payload :: "string \<Rightarrow> bool" where
  "base64_payload s = list_all base64_char s"

text \<open>The string values of an output: where a verdict could stand.\<close>

definition face_strings :: "face \<Rightarrow> string list" where
  "face_strings f = (case face_path f of Some p \<Rightarrow> [p] | None \<Rightarrow> [])"

definition result_strings :: "analysis_result \<Rightarrow> string list" where
  "result_strings r =
     concat (map (\<lambda>v. case v of Some x \<Rightarrow> [x] | None \<Rightarrow> []) [uuid r, sha256 r, status r, message r])
     @ (case faces r of Some fs \<Rightarrow> concat (map face_strings fs) | None \<Rightarrow> [])"

fun output_strings :: "tool_output \<Rightarrow> string list" where
  "output_strings (Text t) = [t]"
| "output_strings (JsonResult r) = result_strings r"
| "output_strings (JsonFace f) = face_strings f"
| "output_strings JsonUndefined = []"

definition mentions :: "string \<Rightarrow> tool_output \<Rightarrow> bool" where
  "mentions v out = list_ex (includes_str v) (output_strings out)"

section \<open>Sample data for the closed instances\<close>

definition sample_runtime :: js_runtime where
  "sample_runtime =
     \<lparr> base64_decode = map of_char,
       toFixed2 = (\<lambda>x. ''#.##''),
       num_str = (\<lambda>x. ''#''),
       buffer_from_undefined = ''The first argument must be of type string'',
       read_of_undefined = (\<lambda>p. ''Cannot read properties of undefined (reading '' @ p @ '')''),
       mcp_message = (\<lambda>c m. ''MCP error: '' @ m) \<rparr>"

definition status_reply :: "string \<Rightarrow> analysis_result option \<Rightarrow> status_data reply" where
  "status_reply s r = Ok \<lparr> st_status = Some s, st_result = r, st_message = None \<rparr>"

text \<open>A status endpoint that gives the listed replies in turn and \<open>later\<close> ever after.\<close>

definition script :: "status_data reply list \<Rightarrow> status_data reply \<Rightarrow> nat \<Rightarrow> status_data reply" where
  "script rs later k = (if k < length rs then rs ! k else later)"

text \<open>A remote service that answers every URL alike.\<close>

definition service ::
  "string option reply \<Rightarrow> (nat \<Rightarrow> status_data reply) \<Rightarrow> analysis_result reply \<Rightarrow> remote" where
  "service up sts res =
     \<lparr> http_get_image = (\<lambda>url. Ok ([1, 2, 3], Some ''image/png'')),
       http_post_upload = (\<lambda>url buf fname ctype. up),
       http_get_status = (\<lambda>url. sts),
       http_get_result = (\<lambda>url. res) \<rparr>"

definition sample_face :: face where
  "sample_face = \<lparr> ansamble = Some 0.9, is_real_model = [], face_path = None \<rparr>"

definition sample_result :: analysis_result where
  "sample_result =
     \<lparr> uuid = Some ''abc'', sha256 = None, status = Some ''done'', message = None,
       faces = Some [sample_face], total_faces = Some 1 \<rparr>"

section \<open>The poll loop\<close>

lemma rounds_Suc:
  "rounds cfg url (Suc n) = Sleep (retryInterval cfg) # GetStatus url # rounds cfg url n"
  by (simp add: rounds_def)

lemma rounds_0: "rounds cfg url 0 = []"
  by (simp add: rounds_def)

lemma statusCalls_rounds: "statusCalls (rounds cfg url n) = n"
  by (induction n) (simp_all add: rounds_Suc rounds_0 statusCalls_def)

lemma resultCalls_rounds: "resultCalls (rounds cfg url n) = 0"
  by (induction n) (simp_all add: rounds_Suc rounds_0 resultCalls_def)

lemma pollStatus_stop:
  "polling (cur_status st) \<Longrightarrow> k + attempts st < maxRetries cfg \<Longrightarrow>
   (\<forall>j<k. pending_reply (replies j)) \<Longrightarrow> replies k = Ok d \<Longrightarrow> \<not> polling (st_status d) \<Longrightarrow>
   pollStatus cfg url replies st =
     (Inr \<lparr> cur_status = st_status d, attempts = attempts st + k + 1,
            analysisResult = captured replies (Suc k) (analysisResult st) \<rparr>,
      rounds cfg url (Suc k))"
proof (induction k arbitrary: replies st)
  case 0
  then show ?case
    by (simp add: pollStatus.simps[of cfg url replies st] pollStatus.simps[of cfg url "\<lambda>k. replies (Suc k)"] rounds_def)
next
  case (Suc k)
  from Suc.prems(3) have p0: "pending_reply (replies 0)" by simp
  then obtain d0 where d0: "replies 0 = Ok d0" "polling (st_status d0)"
    by (auto simp: pending_reply_def split: reply.splits)
  let ?st' = "\<lparr> cur_status = st_status d0, attempts = attempts st + 1,
                 analysisResult = (case st_result d0 of Some r \<Rightarrow> Some r | None \<Rightarrow> analysisResult st) \<rparr>"
  have ih: "pollStatus cfg url (\<lambda>j. replies (Suc j)) ?st' =
     (Inr \<lparr> cur_status = st_status d, attempts = attempts ?st' + k + 1,
            analysisResult = captured (\<lambda>j. replies (Suc j)) (Suc k) (analysisResult ?st') \<rparr>,
      rounds cfg url (Suc k))"
    using Suc.prems d0 by (intro Suc.IH) auto
  show ?case
    using Suc.prems(1,2) d0 ih
    by (subst pollStatus.simps) (simp add: rounds_Suc)
qed

lemma pollStatus_timeout:
  "polling (cur_status st) \<Longrightarrow> attempts st + n = maxRetries cfg \<Longrightarrow>
   (\<forall>j<n. pending_reply (replies j)) \<Longrightarrow>
   pollStatus cfg url replies st =
     (Inl (Error ''Maximum retry attempts reached for status check.''), rounds cfg url n)"
proof (induction n arbitrary: replies st)
  case 0
  then show ?case
    by (simp add: pollStatus.simps[of cfg url replies st] rounds_def)
next
  case (Suc n)
  from Suc.prems(3) have p0: "pending_reply (replies 0)" by simp
  then obtain d0 where d0: "replies 0 = Ok d0" "polling (st_status d0)"
    by (auto simp: pending_reply_def split: reply.splits)
  let ?st' = "\<lparr> cur_status = st_status d0, attempts = attempts st + 1,
                 analysisResult = (case st_result d0 of Some r \<Rightarrow> Some r | None \<Rightarrow> analysisResult st) \<rparr>"
  have ih: "pollStatus cfg url (\<lambda>j. replies (Suc j)) ?st' =
     (Inl (Error ''Maximum retry attempts reached for status check.''), rounds cfg url n)"
    using Suc.prems d0 by (intro Suc.IH) auto
  show ?case
    using Suc.prems(1,2) d0 ih
    by (subst pollStatus.simps) (simp add: rounds_Suc)
qed

lemma pollStatus_fail:
  "polling (cur_status st) \<Longrightarrow> k + attempts st < maxRetries cfg \<Longrightarrow>
   (\<forall>j<k. pending_reply (replies j)) \<Longrightarrow> replies k = Fail c m \<Longrightarrow>
   pollStatus cfg url replies st = (Inl (AxiosError c m), rounds cfg url (Suc k))"
proof (induction k arbitrary: replies st)
  case 0
  then show ?case
    by (simp add: pollStatus.simps[of cfg url replies st] rounds_def)
next
  case (Suc k)
  from Suc.prems(3) have p0: "pending_reply (replies 0)" by simp
  then obtain d0 where d0: "replies 0 = Ok d0" "polling (st_status d0)"
    by (auto simp: pending_reply_def split: reply.splits)
  let ?st' = "\<lparr> cur_status = st_status d0, attempts = attempts st + 1,
                 analysisResult = (case st_result d0 of Some r \<Rightarrow> Some r | None \<Rightarrow> analysisResult st) \<rparr>"
  have ih: "pollStatus cfg url (\<lambda>j. replies (Suc j)) ?st' =
     (Inl (AxiosError c m), rounds cfg url (Suc k))"
    using Suc.prems d0 by (intro Suc.IH) auto
  show ?case
    using Suc.prems(1,2) d0 ih
    by (subst pollStatus.simps) (simp add: rounds_Suc)
qed

lemma pollStatus_calls:
  "\<exists>n. n \<le> maxRetries cfg - attempts st \<and> snd (pollStatus cfg url replies st) = rounds cfg url n"
proof (induction cfg url replies st rule: pollStatus.induct)
  case (1 cfg url replies st)
  show ?case
  proof (cases "polling (cur_status st) \<and> attempts st < maxRetries cfg")
    case False
    then have "snd (pollStatus cfg url replies st) = rounds cfg url 0"
      by (auto simp: pollStatus.simps[of cfg url replies st] rounds_def)
    then show ?thesis by blast
  next
    case True
    show ?thesis
    proof (cases "replies 0")
      case (Fail c m)
      with True have "snd (pollStatus cfg url replies st) = rounds cfg url 1"
        by (simp add: pollStatus.simps[of cfg url replies st] rounds_def)
      moreover from True have "1 \<le> maxRetries cfg - attempts st" by linarith
      ultimately show ?thesis by blast
    next
      case (Ok d)
      let ?st' = "\<lparr> cur_status = st_status d, attempts = attempts st + 1,
                 analysisResult = (case st_result d of Some r \<Rightarrow> Some r | None \<Rightarrow> analysisResult st) \<rparr>"
      from "1.IH"[OF _ _ Ok] True obtain n where
        n: "n \<le> maxRetries cfg - attempts ?st'"
           "snd (pollStatus cfg url (\<lambda>k. replies (Suc k)) ?st') = rounds cfg url n"
        by auto
      from True Ok n(2) have "snd (pollStatus cfg url replies st) = rounds cfg url (Suc n)"
        by (simp add: pollStatus.simps[of cfg url replies st] rounds_Suc case_prod_unfold)
      moreover from n(1) True have "Suc n \<le> maxRetries cfg - attempts st" by simp linarith
      ultimately show ?thesis by blast
    qed
  qed
qed

lemma pollStatus_idle: "\<not> polling (cur_status st) \<Longrightarrow> pollStatus cfg url replies st = (Inr st, [])"
  by (simp add: pollStatus.simps[of cfg url replies st])

lemma pollStatus_first_round:
  "polling (cur_status st) \<Longrightarrow> attempts st < maxRetries cfg \<Longrightarrow>
   \<exists>r cs. pollStatus cfg url replies st = (r, Sleep (retryInterval cfg) # GetStatus url # cs)"
  by (cases "replies 0")
     (simp_all add: pollStatus.simps[of cfg url replies st] case_prod_unfold)

lemma script_simps:
  "script (r # rs) later 0 = r"
  "script (r # rs) later (Suc k) = script rs later k"
  "script [] later k = later"
  by (simp_all add: script_def)

section \<open>The session and the handlers in terms of their parts\<close>

lemma andThen_Inl: "andThen (Inl e, cs) f = (Inl e, cs)"
  by (simp add: andThen_def)

lemma andThen_Inr: "andThen (Inr a, cs) f = (case f a of (r, cs') \<Rightarrow> (r, cs @ cs'))"
  by (simp add: andThen_def)

lemma finalResult_embedded:
  "analysisResult st = Some r \<Longrightarrow> finalResult cfg R u st = (Inr r, [])"
  by (simp add: finalResult_def andThen_Inr)

lemma finalResult_no_faces:
  "analysisResult st = None \<Longrightarrow>
   cur_status st = Some ''no_faces_found'' \<or> cur_status st = Some ''no faces found'' \<Longrightarrow>
   finalResult cfg R u st = (Inr (noFacesResult u), [])"
  by (auto simp add: finalResult_def andThen_Inr)

lemma finalResult_incomplete:
  "analysisResult st = None \<Longrightarrow> cur_status st \<noteq> Some ''done'' \<Longrightarrow>
   cur_status st \<noteq> Some ''completed'' \<Longrightarrow> cur_status st \<noteq> Some ''no_faces_found'' \<Longrightarrow>
   cur_status st \<noteq> Some ''no faces found'' \<Longrightarrow>
   finalResult cfg R u st =
     (Inl (Error (''Analysis did not complete successfully. Last status: '' @ str_of (cur_status st))), [])"
  by (simp add: finalResult_def andThen_Inl)

lemma finalResult_fetch:
  "analysisResult st = None \<Longrightarrow> cur_status st = Some ''done'' \<or> cur_status st = Some ''completed'' \<Longrightarrow>
   finalResult cfg R u st = fetchResult R (resultUrl cfg u)"
  by (cases "fetchResult R (baseUrl cfg @ ''/api/'' @ u)")
     (auto simp add: finalResult_def andThen_Inr resultUrl_def)

lemma awaitAnalysis_polled:
  "u \<noteq> [] \<Longrightarrow>
   pollSession cfg R u = (Inr st, cs) \<Longrightarrow>
   awaitAnalysis cfg R (Some u) = (case finalResult cfg R u st of (r, cs') \<Rightarrow> (r, cs @ cs'))"
  by (simp add: awaitAnalysis_def andThen_Inr pollSession_def statusUrl_def initial_state_def)

lemma awaitAnalysis_poll_error:
  "u \<noteq> [] \<Longrightarrow>
   pollSession cfg R u = (Inl e, cs) \<Longrightarrow>
   awaitAnalysis cfg R (Some u) = (Inl e, cs)"
  by (simp add: awaitAnalysis_def andThen_Inl pollSession_def statusUrl_def initial_state_def)

lemma awaitAnalysis_no_uuid:
  "falsy body \<Longrightarrow>
   awaitAnalysis cfg R body = (Inl (Error ''No session UUID returned from Proofly API after upload''), [])"
  by (simp add: awaitAnalysis_def)

lemma submit_uploaded:
  "http_post_upload R (uploadUrl cfg) buf fname ctype = Ok body \<Longrightarrow>
   submit cfg R buf fname ctype =
     (case awaitAnalysis cfg R body of
        (r, cs) \<Rightarrow> (r, Upload (uploadUrl cfg) buf fname ctype # cs))"
  by (simp add: submit_def uploadImage_def andThen_Inr uploadUrl_def)

lemma submit_upload_failed:
  "http_post_upload R (uploadUrl cfg) buf fname ctype = Fail c m \<Longrightarrow>
   submit cfg R buf fname ctype =
     (Inl (AxiosError c m), [Upload (uploadUrl cfg) buf fname ctype])"
  by (simp add: submit_def uploadImage_def andThen_Inl uploadUrl_def)

lemma handleAnalyzeImage_submitted:
  "b \<noteq> [] \<Longrightarrow> f \<noteq> [] \<Longrightarrow> decodeImage js b = Inr buf \<Longrightarrow>
   handleAnalyzeImage cfg js R (Some b) (Some f) fmt =
     (case submit cfg R buf f (getContentTypeFromFilename f) of
        (Inr r, cs) \<Rightarrow> (Inr (renderResult cfg js fmt r), cs)
      | (Inl e, cs) \<Rightarrow>
          (Inl (McpError ServerError (''Failed to analyze image: '' @ exn_message js e)), cs))"
  by (simp add: handleAnalyzeImage_def andThen_Inr case_prod_unfold)

lemma handleAnalyzeImageUrl_submitted:
  "url \<noteq> [] \<Longrightarrow> http_get_image R url = Ok (buf, ctype) \<Longrightarrow>
   handleAnalyzeImageUrl cfg js R (Some url) fmt =
     (case submit cfg R buf (originalFilename url)
             (Some (if falsy ctype then ''application/octet-stream'' else str_of ctype)) of
        (Inr r, cs) \<Rightarrow> (Inr (renderResult cfg js fmt r), Download url # cs)
      | (Inl e, cs) \<Rightarrow>
          (Inl (McpError ServerError (''Failed to analyze image URL: '' @ exn_message js e)),
           Download url # cs))"
  by (simp add: handleAnalyzeImageUrl_def downloadImage_def andThen_Inr case_prod_unfold
           split: sum.splits)

section \<open>Facts about the sample data\<close>

lemma pollSession_calls:
  "\<exists>n\<le>maxRetries cfg. snd (pollSession cfg R u) = rounds cfg (statusUrl cfg u) n"
  using pollStatus_calls[of cfg initial_state "statusUrl cfg u" "http_get_status R (statusUrl cfg u)"]
  by (auto simp: pollSession_def initial_state_def)

lemma sample_urls:
  "uploadUrl PROOFLY_CONFIG = ''https://api.proofly.ai/api/upload''"
  "statusUrl PROOFLY_CONFIG ''abc'' = ''https://api.proofly.ai/api/abc/status''"
  "resultUrl PROOFLY_CONFIG ''abc'' = ''https://api.proofly.ai/api/abc''"
  by (simp_all add: uploadUrl_def statusUrl_def resultUrl_def PROOFLY_CONFIG_def)

lemma sample_image:
  "decodeImage sample_runtime ''QUJD'' = Inr (map of_char ''QUJD'')"
  "getContentTypeFromFilename ''a.png'' = Some ''image/png''"
  "originalFilename ''https://x.org/cat.png'' = ''cat.png''"
  by (simp_all add: decodeImage_def sample_runtime_def getContentTypeFromFilename_def
        contentTypes_def lower_char_def originalFilename_def)

section \<open>Counting the status requests of a session\<close>

lemma statusCalls_append: "statusCalls (cs @ cs') = statusCalls cs + statusCalls cs'"
  by (simp add: statusCalls_def)

lemma statusCalls_finalResult: "statusCalls (snd (finalResult cfg R u st)) = 0"
  by (cases "http_get_result R (baseUrl cfg @ ''/api/'' @ u)")
     (auto simp: finalResult_def andThen_def fetchResult_def statusCalls_def split: option.splits)

lemma awaitAnalysis_statusCalls:
  assumes "u \<noteq> []"
  shows "statusCalls (snd (awaitAnalysis cfg R (Some u))) = statusCalls (snd (pollSession cfg R u))"
proof (cases "pollSession cfg R u")
  case (Pair res cs)
  show ?thesis
  proof (cases res)
    case (Inl e)
    with Pair assms show ?thesis by (simp add: awaitAnalysis_poll_error)
  next
    case (Inr st)
    with Pair assms show ?thesis
      using statusCalls_finalResult[of cfg R u st]
      by (simp add: awaitAnalysis_polled case_prod_unfold statusCalls_append)
  qed
qed

lemma pollSession_stop:
  assumes "k < maxRetries cfg"
    and "\<forall>j<k. pending_reply (http_get_status R (statusUrl cfg u) j)"
    and "http_get_status R (statusUrl cfg u) k = Ok d"
    and "\<not> polling (st_status d)"
  shows "pollSession cfg R u =
     (Inr \<lparr> cur_status = st_status d, attempts = Suc k,
            analysisResult = captured (http_get_status R (statusUrl cfg u)) (Suc k) None \<rparr>,
      rounds cfg (statusUrl cfg u) (Suc k))"
  using pollStatus_stop[of initial_state k cfg "http_get_status R (statusUrl cfg u)" d "statusUrl cfg u"] assms
  by (simp add: pollSession_def initial_state_def polling_def)

lemma pollSession_timeout:
  assumes "\<forall>j<maxRetries cfg. pending_reply (http_get_status R (statusUrl cfg u) j)"
  shows "pollSession cfg R u =
     (Inl (Error ''Maximum retry attempts reached for status check.''),
      rounds cfg (statusUrl cfg u) (maxRetries cfg))"
  using pollStatus_timeout[of initial_state "maxRetries cfg" cfg "http_get_status R (statusUrl cfg u)" "statusUrl cfg u"] assms
  by (simp add: pollSession_def initial_state_def polling_def)

lemma finalResult_resolves:
  assumes "cur_status st = Some ''done'' \<or> cur_status st = Some ''completed''
           \<or> cur_status st = Some ''no_faces_found'' \<or> cur_status st = Some ''no faces found''"
    and "analysisResult st = None \<and> (cur_status st = Some ''done'' \<or> cur_status st = Some ''completed'')
           \<longrightarrow> http_get_result R (resultUrl cfg u) = Ok r'"
  shows "\<exists>r cs'. finalResult cfg R u st = (Inr r, cs')"
proof (cases "analysisResult st")
  case (Some r)
  then show ?thesis by (simp add: finalResult_embedded)
next
  case None
  from assms(1) consider "cur_status st = Some ''done'' \<or> cur_status st = Some ''completed''"
    | "cur_status st = Some ''no_faces_found'' \<or> cur_status st = Some ''no faces found''"
    by blast
  then show ?thesis
  proof cases
    case 1
    with None assms(2) show ?thesis by (simp add: finalResult_fetch fetchResult_def)
  next
    case 2
    with None show ?thesis by (simp add: finalResult_no_faces)
  qed
qed

lemma captured_last:
  "replies k = Ok d \<Longrightarrow> st_result d = Some r \<Longrightarrow> captured replies (Suc k) acc = Some r"
  by (induction k arbitrary: replies acc) simp_all

section \<open>The face details in terms of their parts\<close>

lemma handleGetFaceDetails_fetched:
  assumes "su \<noteq> []" and "0 \<le> i" and "http_get_result R (resultUrl cfg su) = Ok r"
  shows "handleGetFaceDetails cfg js R (Some su) (JNum i) fmt =
     (case selectFace cfg js su i fmt r of
        (Inr out, cs) \<Rightarrow> (Inr out, GetResult (resultUrl cfg su) # cs)
      | (Inl e, cs) \<Rightarrow>
          if exn_response_status e = Some 404 then
            (Inl (McpError NotFound
                   (''Session with UUID '' @ su @ '' not found when fetching face details.'')),
             GetResult (resultUrl cfg su) # cs)
          else
            (Inl (McpError ServerError (''Failed to get face details: '' @ exn_message js e)),
             GetResult (resultUrl cfg su) # cs))"
  using assms
  by (simp add: handleGetFaceDetails_def fetchResult_def andThen_Inr resultUrl_def
        case_prod_unfold split: sum.splits)

lemma faceAt_nat: "faceAt fs (real k) = Some (fs ! k)"
  by (simp add: faceAt_def)

lemma selectFace_in_range:
  assumes "faces r = Some fs" and "k < length fs"
  shows "selectFace cfg js su (real k) fmt r =
     (if fmt = Some ''json'' then (Inr (JsonFace (fs ! k)), [])
      else (Inr (Text (''**Details for Face '' @ num_str js (real k + 1) @ '' (Session: ''
                       @ su @ ''):**\<newline>'' @ faceBody cfg js (fs ! k))), []))"
  using assms by (simp add: selectFace_def faceAt_nat)

lemma selectFace_out_of_range:
  assumes "faces r = None \<or> (faces r = Some fs \<and> real (length fs) \<le> i)"
  shows "selectFace cfg js su i fmt r =
     (Inl (McpExn NotFound
            (''Face with index '' @ num_str js i @ '' not found in session '' @ su
             @ ''. Total faces: ''
             @ num_str js (case faces r of None \<Rightarrow> 0 | Some gs \<Rightarrow> real (length gs)) @ ''.'')), [])"
  using assms by (auto simp add: selectFace_def)

text \<open>What the handler does with an index past the last face.\<close>

lemma face_index_past_end_is_rewrapped:
  assumes "su \<noteq> []" and "0 \<le> i" and "http_get_result R (resultUrl cfg su) = Ok r"
    and "faces r = None \<or> (faces r = Some fs \<and> real (length fs) \<le> i)"
  shows "handleGetFaceDetails cfg js R (Some su) (JNum i) fmt =
     (Inl (McpError ServerError
            (''Failed to get face details: ''
             @ mcp_message js NotFound
                 (''Face with index '' @ num_str js i @ '' not found in session '' @ su
                  @ ''. Total faces: ''
                  @ num_str js (case faces r of None \<Rightarrow> 0 | Some gs \<Rightarrow> real (length gs)) @ ''.''))),
      [GetResult (resultUrl cfg su)])"
  using assms(1-3) selectFace_out_of_range[OF assms(4)]
  by (simp add: handleGetFaceDetails_fetched)

lemma sample_face_details:
  "handleGetFaceDetails PROOFLY_CONFIG sample_runtime
     (service (Ok (Some ''abc'')) (script [] (status_reply ''done'' None)) (Ok sample_result))
     (Some ''abc'') (JNum 0) (Some ''json'')
   = (Inr (JsonFace sample_face), [GetResult ''https://api.proofly.ai/api/abc''])"
  by (simp add: handleGetFaceDetails_def fetchResult_def andThen_def selectFace_def faceAt_def
        service_def sample_result_def PROOFLY_CONFIG_def)

lemma face_index_past_end_instance:
  "handleGetFaceDetails PROOFLY_CONFIG sample_runtime
     (service (Ok (Some ''abc'')) (script [] (status_reply ''done'' None)) (Ok sample_result))
     (Some ''abc'') (JNum 5) (Some ''json'')
   = (Inl (McpError ServerError
           ''Failed to get face details: MCP error: Face with index # not found in session abc. Total faces: #.''),
      [GetResult ''https://api.proofly.ai/api/abc''])"
  by (simp add: handleGetFaceDetails_def fetchResult_def andThen_def selectFace_def
        service_def sample_result_def sample_runtime_def PROOFLY_CONFIG_def)

section \<open>The verdict line in the readable text\<close>

lemma includes_str_here: "includes_str pat (pat @ b)"
proof (cases "pat @ b")
  case Nil
  then show ?thesis by simp
next
  case (Cons c cs)
  have "prefix pat (pat @ b)" by simp
  with Cons show ?thesis by simp
qed

lemma includes_str_later: "includes_str pat b \<Longrightarrow> includes_str pat (a @ b)"
  by (induction a) auto

lemma includes_str_earlier: "includes_str pat a \<Longrightarrow> includes_str pat (a @ b)"
proof (induction a)
  case Nil
  then show ?case using includes_str_here[of "[]" b] by simp
next
  case (Cons c a)
  have "prefix pat (c # a) \<Longrightarrow> prefix pat (c # a @ b)"
    using prefix_prefix[of pat "c # a" b] by simp
  with Cons show ?case by auto
qed

lemma includes_str_concat:
  "x \<in> set xs \<Longrightarrow> includes_str pat (g x) \<Longrightarrow> includes_str pat (concat (map g xs))"
  by (induction xs) (auto intro: includes_str_later includes_str_earlier)

lemma faceBody_verdict:
  "prefix (''* Verdict: **'' @ getVerdict (ansamble f) @ ''**\<newline>'') (faceBody cfg js f)"
  by (simp add: faceBody_def)

lemma faceBlock_verdict:
  "includes_str (''* Verdict: **'' @ getVerdict (ansamble f) @ ''**\<newline>'') (faceBlock cfg js index f)"
proof -
  obtain rest where "faceBody cfg js f = (''* Verdict: **'' @ getVerdict (ansamble f) @ ''**\<newline>'') @ rest"
    using faceBody_verdict[of f cfg js] by (auto simp: prefix_def)
  then have "faceBlock cfg js index f =
      (''**Face '' @ num_str js (real (index + 1)) @ '':**\<newline>'')
      @ (''* Verdict: **'' @ getVerdict (ansamble f) @ ''**\<newline>'') @ (rest @ ''\<newline>'')"
    by (simp add: faceBlock_def)
  then show ?thesis
    by (metis includes_str_later includes_str_here)
qed

lemma formatResults_lists_verdicts:
  assumes "faces r = Some fs" and "f \<in> set fs"
    and "falsy (message r) \<or> (status r \<noteq> Some ''no_faces_found'' \<and> status r \<noteq> Some ''no faces found'')"
  shows "includes_str (''* Verdict: **'' @ getVerdict (ansamble f) @ ''**\<newline>'')
           (formatResultsToHumanReadable cfg js (Some r))"
proof -
  from assms(2) obtain g gs where fs: "fs = g # gs" by (cases fs) auto
  from assms(2) obtain i where i: "i < length fs" "fs ! i = f" by (auto simp: in_set_conv_nth)
  then have mem: "(i, f) \<in> set (enumerate 0 fs)" by (auto simp: in_set_enumerate_eq)
  have blocks: "includes_str (''* Verdict: **'' @ getVerdict (ansamble f) @ ''**\<newline>'')
      (concat (map (\<lambda>(index, g). faceBlock cfg js index g) (enumerate 0 fs)))"
    by (rule includes_str_concat[OF mem]) (simp only: prod.case faceBlock_verdict)
  obtain pre post where "formatResultsToHumanReadable cfg js (Some r) =
      pre @ concat (map (\<lambda>(index, g). faceBlock cfg js index g) (enumerate 0 fs)) @ post"
  proof
    show "formatResultsToHumanReadable cfg js (Some r) =
      (''**Image Analysis Results:**\<newline>''
          @ ''* Session UUID: '' @ (if falsy (uuid r) then ''N/A'' else str_of (uuid r)) @ ''\<newline>''
          @ (if falsy (sha256 r) then [] else ''* SHA256 hash: '' @ str_of (sha256 r) @ ''\<newline>'')
          @ ''* Status: '' @ (if falsy (status r) then ''N/A'' else str_of (status r)) @ ''\<newline>''
          @ ''* Faces detected: ''
          @ num_str js (real (case total_faces r of
                                          Some n \<Rightarrow> if n = 0 then length fs else n
                                        | None \<Rightarrow> length fs))
          @ ''\<newline>\<newline>'')
      @ concat (map (\<lambda>(index, g). faceBlock cfg js index g) (enumerate 0 fs))
      @ ''For unlimited speed access and additional features, register at check.proofly.ai\<newline>''"
      using assms(1,3) fs by (auto simp: formatResultsToHumanReadable_def)
  qed
  with blocks show ?thesis
    by (metis includes_str_later includes_str_earlier)
qed

section \<open>Splitting a data URI\<close>

lemma split_on_no_separator: "c \<notin> set s \<Longrightarrow> split_on c s = [s]"
  by (induction s) auto

lemma split_on_at_separator: "c \<notin> set a \<Longrightarrow> split_on c (a @ c # b) = a # split_on c b"
  by (induction a) auto

lemma base64_payload_chars:
  assumes "base64_payload s"
  shows "CHR '','' \<notin> set s" and "CHR '':'' \<notin> set s"
proof -
  have "\<not> base64_char CHR '',''" "\<not> base64_char CHR '':''"
    by (simp_all add: base64_char_def)
  with assms show "CHR '','' \<notin> set s" and "CHR '':'' \<notin> set s"
    by (auto simp: base64_payload_def list_all_iff)
qed

lemma base64_payload_is_no_data_uri:
  assumes "base64_payload s"
  shows "\<not> prefix ''data:image'' s"
proof
  assume "prefix ''data:image'' s"
  then obtain rest where "s = ''data:image'' @ rest" by (auto simp: prefix_def)
  then have "CHR '':'' \<in> set s" by simp
  with base64_payload_chars(2)[OF assms] show False by blast
qed

lemma decodeImage_plain:
  "base64_payload payload \<Longrightarrow> decodeImage js payload = Inr (base64_decode js payload)"
  by (simp add: decodeImage_def base64_payload_is_no_data_uri)

lemma decodeImage_data_uri:
  assumes "base64_payload payload" and "CHR '','' \<notin> set subtype"
  shows "decodeImage js (''data:image/'' @ subtype @ '';base64,'' @ payload) = Inr (base64_decode js payload)"
proof -
  have hd: "CHR '','' \<notin> set (''data:image/'' @ subtype @ '';base64'')"
    using assms(2) by simp
  have eq: "''data:image/'' @ subtype @ '';base64,'' @ payload
      = (''data:image/'' @ subtype @ '';base64'') @ CHR '','' # payload"
    by simp
  have sp: "split_on CHR '','' (''data:image/'' @ subtype @ '';base64,'' @ payload)
      = [''data:image/'' @ subtype @ '';base64'', payload]"
    unfolding eq
    by (simp only: split_on_at_separator[OF hd]
          split_on_no_separator[OF base64_payload_chars(1)[OF assms(1)]])
  have pre: "prefix ''data:image'' (''data:image/'' @ subtype @ '';base64,'' @ payload)"
    by simp
  show ?thesis
    unfolding decodeImage_def using pre sp by (simp only: if_True list.case)
qed

section \<open>C1: when the loop asks again\<close>

text \<open>
  C1, as amended. The loop asks again (a wait, then a status request) exactly while the
  status is one of the three strings \<open>in progress\<close>, \<open>processing\<close> and \<open>pending\<close> and
  fewer than \<open>maxRetries\<close> requests were made. Any other status ends the loop at once:
  \<open>in_progress\<close> with an underscore and every value the source does not list are
  among them. When the reply number \<open>k\<close> is the first with such a status, the loop has
  made \<open>k + 1\<close> requests and ends with that status.
\<close>

theorem pollStatus_continues_exactly_while_listed:
  "(polling s \<longleftrightarrow> s = Some ''in progress'' \<or> s = Some ''processing'' \<or> s = Some ''pending'')
   \<and> (\<not> polling (cur_status st) \<longrightarrow> pollStatus cfg url replies st = (Inr st, []))
   \<and> (polling (cur_status st) \<and> attempts st < maxRetries cfg \<longrightarrow>
        (\<exists>r cs. pollStatus cfg url replies st = (r, Sleep (retryInterval cfg) # GetStatus url # cs)))
   \<and> (polling (cur_status st) \<and> k + attempts st < maxRetries cfg
        \<and> (\<forall>j<k. pending_reply (replies j)) \<and> replies k = Ok d \<and> \<not> polling (st_status d) \<longrightarrow>
        pollStatus cfg url replies st =
          (Inr \<lparr> cur_status = st_status d, attempts = attempts st + k + 1,
                 analysisResult = captured replies (Suc k) (analysisResult st) \<rparr>,
           rounds cfg url (Suc k)))"
proof -
  have a: "polling s \<longleftrightarrow> s = Some ''in progress'' \<or> s = Some ''processing'' \<or> s = Some ''pending''"
    by (simp add: polling_def)
  have b: "\<not> polling (cur_status st) \<longrightarrow> pollStatus cfg url replies st = (Inr st, [])"
    by (simp add: pollStatus_idle)
  have c: "polling (cur_status st) \<and> attempts st < maxRetries cfg \<longrightarrow>
        (\<exists>r cs. pollStatus cfg url replies st = (r, Sleep (retryInterval cfg) # GetStatus url # cs))"
    using pollStatus_first_round by blast
  have d: "polling (cur_status st) \<and> k + attempts st < maxRetries cfg
        \<and> (\<forall>j<k. pending_reply (replies j)) \<and> replies k = Ok d \<and> \<not> polling (st_status d) \<longrightarrow>
        pollStatus cfg url replies st =
          (Inr \<lparr> cur_status = st_status d, attempts = attempts st + k + 1,
                 analysisResult = captured replies (Suc k) (analysisResult st) \<rparr>,
           rounds cfg url (Suc k))"
    using pollStatus_stop by blast
  from a b c d show ?thesis by blast
qed

text \<open>An instance: \<open>processing\<close>, then the unlisted status \<open>queued\<close>.\<close>

theorem pollStatus_continues_exactly_while_listed_witness:
  "polling (Some ''in progress'')
   \<and> pending_reply (status_reply ''processing'' None)
   \<and> \<not> polling (Some ''queued'')
   \<and> pollStatus PROOFLY_CONFIG ''https://api.proofly.ai/api/abc/status''
        (script [status_reply ''processing'' None, status_reply ''queued'' None] (status_reply ''done'' None))
        \<lparr> cur_status = Some ''in progress'', attempts = 0, analysisResult = None \<rparr>
      = (Inr \<lparr> cur_status = Some ''queued'', attempts = 2, analysisResult = None \<rparr>,
         [Sleep 2000, GetStatus ''https://api.proofly.ai/api/abc/status'',
          Sleep 2000, GetStatus ''https://api.proofly.ai/api/abc/status''])"
proof -
  let ?replies = "script [status_reply ''processing'' None, status_reply ''queued'' None] (status_reply ''done'' None)"
  let ?st = "\<lparr> cur_status = Some ''in progress'', attempts = 0, analysisResult = None \<rparr>"
  let ?d = "\<lparr> st_status = Some ''queued'', st_result = None, st_message = None \<rparr>"
  have h1: "polling (cur_status ?st)" by (simp add: polling_def)
  have h2: "1 + attempts ?st < maxRetries PROOFLY_CONFIG" by (simp add: PROOFLY_CONFIG_def)
  have h3: "\<forall>j<1. pending_reply (?replies j)"
    by (simp add: script_def pending_reply_def status_reply_def polling_def)
  have h4: "?replies 1 = Ok ?d" by (simp add: script_def status_reply_def)
  have h5: "\<not> polling (st_status ?d)" by (simp add: polling_def)
  from pollStatus_continues_exactly_while_listed
         [of "Some ''in progress''" ?st PROOFLY_CONFIG "''https://api.proofly.ai/api/abc/status''" ?replies 1 ?d]
       h1 h2 h3 h4 h5
  show ?thesis
    by (simp add: rounds_def PROOFLY_CONFIG_def script_def status_reply_def pending_reply_def polling_def)
qed

text \<open>
  C1 as stated fails: after a reply with status \<open>in_progress\<close>, or with the unlisted
  status \<open>queued\<close>, the loop makes no further request, although the next reply would
  have been \<open>done\<close>.
\<close>

theorem pollStatus_ends_on_in_progress_underscore:
  "pollStatus PROOFLY_CONFIG ''https://api.proofly.ai/api/abc/status''
        (script [status_reply ''in_progress'' None] (status_reply ''done'' (Some sample_result)))
        \<lparr> cur_status = Some ''in progress'', attempts = 0, analysisResult = None \<rparr>
      = (Inr \<lparr> cur_status = Some ''in_progress'', attempts = 1, analysisResult = None \<rparr>,
         [Sleep 2000, GetStatus ''https://api.proofly.ai/api/abc/status''])
   \<and> pollStatus PROOFLY_CONFIG ''https://api.proofly.ai/api/abc/status''
        (script [status_reply ''queued'' None] (status_reply ''done'' (Some sample_result)))
        \<lparr> cur_status = Some ''in progress'', attempts = 0, analysisResult = None \<rparr>
      = (Inr \<lparr> cur_status = Some ''queued'', attempts = 1, analysisResult = None \<rparr>,
         [Sleep 2000, GetStatus ''https://api.proofly.ai/api/abc/status''])"
  by (simp add: pollStatus.simps PROOFLY_CONFIG_def script_def status_reply_def polling_def)

section \<open>C2: the loop ends\<close>

text \<open>
  C2, as amended. \<open>pollStatus\<close> is a total function: the loop ends for every
  sequence of replies, after at most \<open>maxRetries\<close> status requests. When the first
  \<open>maxRetries\<close> replies all report \<open>in progress\<close>, \<open>processing\<close> or \<open>pending\<close>, the
  session fails with \<open>Maximum retry attempts reached for status check.\<close> after exactly
  \<open>maxRetries\<close> requests. When reply number \<open>k < maxRetries\<close> is the first with another
  status, the loop ends after exactly \<open>k + 1\<close> requests, whatever that status is; the
  session then resolves when the status is \<open>done\<close>, \<open>completed\<close> or a no-faces spelling
  and the request for the full result, where one is needed, succeeds.
\<close>

theorem session_poll_outcomes:
  assumes "u \<noteq> []"
  shows "statusCalls (snd (awaitAnalysis cfg R (Some u))) \<le> maxRetries cfg
    \<and> ((\<forall>j<maxRetries cfg. pending_reply (http_get_status R (statusUrl cfg u) j)) \<longrightarrow>
          awaitAnalysis cfg R (Some u) =
            (Inl (Error ''Maximum retry attempts reached for status check.''),
             rounds cfg (statusUrl cfg u) (maxRetries cfg))
          \<and> statusCalls (snd (awaitAnalysis cfg R (Some u))) = maxRetries cfg)
    \<and> (k < maxRetries cfg \<and> (\<forall>j<k. pending_reply (http_get_status R (statusUrl cfg u) j))
         \<and> http_get_status R (statusUrl cfg u) k = Ok d \<and> \<not> polling (st_status d) \<longrightarrow>
          statusCalls (snd (awaitAnalysis cfg R (Some u))) = Suc k)
    \<and> (k < maxRetries cfg \<and> (\<forall>j<k. pending_reply (http_get_status R (statusUrl cfg u) j))
         \<and> http_get_status R (statusUrl cfg u) k = Ok d
         \<and> (st_status d = Some ''done'' \<or> st_status d = Some ''completed''
              \<or> st_status d = Some ''no_faces_found'' \<or> st_status d = Some ''no faces found'')
         \<and> (captured (http_get_status R (statusUrl cfg u)) (Suc k) None = None
              \<and> (st_status d = Some ''done'' \<or> st_status d = Some ''completed'')
              \<longrightarrow> http_get_result R (resultUrl cfg u) = Ok r') \<longrightarrow>
          (\<exists>r cs. awaitAnalysis cfg R (Some u) = (Inr r, cs)))"
proof -
  have bound: "statusCalls (snd (awaitAnalysis cfg R (Some u))) \<le> maxRetries cfg"
    using pollSession_calls[of cfg R u] assms
    by (auto simp: awaitAnalysis_statusCalls statusCalls_rounds)
  have timeout: "awaitAnalysis cfg R (Some u) =
            (Inl (Error ''Maximum retry attempts reached for status check.''),
             rounds cfg (statusUrl cfg u) (maxRetries cfg))
          \<and> statusCalls (snd (awaitAnalysis cfg R (Some u))) = maxRetries cfg"
    if "\<forall>j<maxRetries cfg. pending_reply (http_get_status R (statusUrl cfg u) j)"
    using pollSession_timeout[OF that] assms
    by (simp add: awaitAnalysis_poll_error statusCalls_rounds)
  have stop: "statusCalls (snd (awaitAnalysis cfg R (Some u))) = Suc k"
    if "k < maxRetries cfg" "\<forall>j<k. pending_reply (http_get_status R (statusUrl cfg u) j)"
       "http_get_status R (statusUrl cfg u) k = Ok d" "\<not> polling (st_status d)"
    using pollSession_stop[OF that] assms
    by (simp add: awaitAnalysis_statusCalls statusCalls_rounds)
  have resolves: "\<exists>r cs. awaitAnalysis cfg R (Some u) = (Inr r, cs)"
    if "k < maxRetries cfg" "\<forall>j<k. pending_reply (http_get_status R (statusUrl cfg u) j)"
       "http_get_status R (statusUrl cfg u) k = Ok d"
       "st_status d = Some ''done'' \<or> st_status d = Some ''completed''
              \<or> st_status d = Some ''no_faces_found'' \<or> st_status d = Some ''no faces found''"
       "captured (http_get_status R (statusUrl cfg u)) (Suc k) None = None
              \<and> (st_status d = Some ''done'' \<or> st_status d = Some ''completed'')
              \<longrightarrow> http_get_result R (resultUrl cfg u) = Ok r'"
  proof -
    from that(4) have np: "\<not> polling (st_status d)" by (auto simp: polling_def)
    let ?st = "\<lparr> cur_status = st_status d, attempts = Suc k,
            analysisResult = captured (http_get_status R (statusUrl cfg u)) (Suc k) None \<rparr>"
    have ps: "pollSession cfg R u = (Inr ?st, rounds cfg (statusUrl cfg u) (Suc k))"
      using pollSession_stop[OF that(1,2,3) np] .
    from that(4) have "cur_status ?st = Some ''done'' \<or> cur_status ?st = Some ''completed''
           \<or> cur_status ?st = Some ''no_faces_found'' \<or> cur_status ?st = Some ''no faces found''"
      by simp
    moreover from that(5) have "analysisResult ?st = None
           \<and> (cur_status ?st = Some ''done'' \<or> cur_status ?st = Some ''completed'')
           \<longrightarrow> http_get_result R (resultUrl cfg u) = Ok r'"
      by simp
    ultimately obtain r cs' where "finalResult cfg R u ?st = (Inr r, cs')"
      using finalResult_resolves[of ?st R cfg u r'] by blast
    with ps assms show ?thesis by (simp add: awaitAnalysis_polled)
  qed
  from bound timeout stop resolves show ?thesis by blast
qed

text \<open>
  Instances: \<open>pending\<close> for ever ends after 60 requests; \<open>pending\<close>, then \<open>completed\<close>
  resolves after 2.
\<close>

theorem session_poll_outcomes_witness:
  "pending_reply (status_reply ''pending'' None)
   \<and> awaitAnalysis PROOFLY_CONFIG
        (service (Ok (Some ''abc'')) (script [] (status_reply ''pending'' None)) (Ok sample_result))
        (Some ''abc'')
      = (Inl (Error ''Maximum retry attempts reached for status check.''),
         rounds PROOFLY_CONFIG ''https://api.proofly.ai/api/abc/status'' 60)
   \<and> statusCalls (snd (awaitAnalysis PROOFLY_CONFIG
        (service (Ok (Some ''abc'')) (script [] (status_reply ''pending'' None)) (Ok sample_result))
        (Some ''abc''))) = 60
   \<and> statusCalls (snd (awaitAnalysis PROOFLY_CONFIG
        (service (Ok (Some ''abc'')) (script [status_reply ''pending'' None] (status_reply ''completed'' None))
           (Ok sample_result))
        (Some ''abc''))) = 2
   \<and> fst (awaitAnalysis PROOFLY_CONFIG
        (service (Ok (Some ''abc'')) (script [status_reply ''pending'' None] (status_reply ''completed'' None))
           (Ok sample_result))
        (Some ''abc'')) = Inr sample_result"
proof -
  let ?never = "service (Ok (Some ''abc'')) (script [] (status_reply ''pending'' None)) (Ok sample_result)"
  let ?second = "service (Ok (Some ''abc'')) (script [status_reply ''pending'' None] (status_reply ''completed'' None))
           (Ok sample_result)"
  let ?d = "\<lparr> st_status = Some ''completed'', st_result = None, st_message = None \<rparr>"
  have h1: "''abc'' \<noteq> []" by simp
  have p: "pending_reply (status_reply ''pending'' None)"
    by (simp add: pending_reply_def status_reply_def polling_def)
  have t1: "\<forall>j<maxRetries PROOFLY_CONFIG. pending_reply (http_get_status ?never (statusUrl PROOFLY_CONFIG ''abc'') j)"
    using p by (simp add: service_def script_def)
  have s1: "1 < maxRetries PROOFLY_CONFIG" by (simp add: PROOFLY_CONFIG_def)
  have s2: "\<forall>j<1. pending_reply (http_get_status ?second (statusUrl PROOFLY_CONFIG ''abc'') j)"
    using p by (simp add: service_def script_def)
  have s3: "http_get_status ?second (statusUrl PROOFLY_CONFIG ''abc'') 1 = Ok ?d"
    by (simp add: service_def script_def status_reply_def)
  have s4: "\<not> polling (st_status ?d)" by (simp add: polling_def)
  have s5: "st_status ?d = Some ''done'' \<or> st_status ?d = Some ''completed''
              \<or> st_status ?d = Some ''no_faces_found'' \<or> st_status ?d = Some ''no faces found''"
    by simp
  have s6: "captured (http_get_status ?second (statusUrl PROOFLY_CONFIG ''abc'')) (Suc 1) None = None
      \<and> (st_status ?d = Some ''done'' \<or> st_status ?d = Some ''completed'')
      \<longrightarrow> http_get_result ?second (resultUrl PROOFLY_CONFIG ''abc'') = Ok sample_result"
    by (simp add: service_def)
  from session_poll_outcomes[OF h1, of PROOFLY_CONFIG ?never] t1
  have a: "awaitAnalysis PROOFLY_CONFIG ?never (Some ''abc'')
      = (Inl (Error ''Maximum retry attempts reached for status check.''),
         rounds PROOFLY_CONFIG (statusUrl PROOFLY_CONFIG ''abc'') (maxRetries PROOFLY_CONFIG))
     \<and> statusCalls (snd (awaitAnalysis PROOFLY_CONFIG ?never (Some ''abc''))) = maxRetries PROOFLY_CONFIG"
    by blast
  from session_poll_outcomes[OF h1, of PROOFLY_CONFIG ?second 1 ?d sample_result] s1 s2 s3 s4 s5 s6
  have b: "statusCalls (snd (awaitAnalysis PROOFLY_CONFIG ?second (Some ''abc''))) = Suc 1"
    and c: "\<exists>r cs. awaitAnalysis PROOFLY_CONFIG ?second (Some ''abc'') = (Inr r, cs)"
    by blast+
  have d: "fst (awaitAnalysis PROOFLY_CONFIG ?second (Some ''abc'')) = Inr sample_result"
    by (simp add: awaitAnalysis_def andThen_def pollStatus.simps finalResult_def fetchResult_def
          service_def script_def status_reply_def polling_def PROOFLY_CONFIG_def)
  have m: "maxRetries PROOFLY_CONFIG = 60" by (simp add: PROOFLY_CONFIG_def)
  from a b d p show ?thesis by (simp add: sample_urls m statusCalls_rounds)
qed

text \<open>
  C2 as stated fails: with a service that reports \<open>in_progress\<close> for ever the
  session ends after one request; it neither resolves nor fails with the retry error
  after \<open>maxRetries\<close> requests.
\<close>

theorem session_in_progress_underscore_is_no_timeout:
  "awaitAnalysis PROOFLY_CONFIG
        (service (Ok (Some ''abc'')) (script [] (status_reply ''in_progress'' None)) (Ok sample_result))
        (Some ''abc'')
      = (Inl (Error ''Analysis did not complete successfully. Last status: in_progress''),
         [Sleep 2000, GetStatus ''https://api.proofly.ai/api/abc/status''])
   \<and> statusCalls (snd (awaitAnalysis PROOFLY_CONFIG
        (service (Ok (Some ''abc'')) (script [] (status_reply ''in_progress'' None)) (Ok sample_result))
        (Some ''abc''))) = 1
   \<and> maxRetries PROOFLY_CONFIG = 60"
  by (simp add: awaitAnalysis_def andThen_def pollStatus.simps finalResult_def statusCalls_def
        service_def script_def status_reply_def polling_def PROOFLY_CONFIG_def)

section \<open>C3: the verdict\<close>

text \<open>
  C3, as amended. For every score \<open>p\<close>, \<open>getVerdict\<close> gives \<open>Likely Real\<close> exactly when
  \<open>p > 0.8\<close>, \<open>Likely Fake\<close> exactly when \<open>p < 0.2\<close> and \<open>Uncertain\<close> otherwise, the
  bounds 0.8 and 0.2 included; for an absent score it gives \<open>Uncertain (no score)\<close>.
  The readable outputs apply it: the lines of a face start with its verdict line, the
  text of a result holds that line for every face it lists, and the text of the face
  details is built from the same lines. The JSON outputs are the result, or the face,
  as the remote service sent it: no verdict is derived there.
\<close>

theorem verdict_mapping_and_its_use:
  "(getVerdict (Some p) = ''Likely Real'' \<longleftrightarrow> p > 0.8)
   \<and> (getVerdict (Some p) = ''Likely Fake'' \<longleftrightarrow> p < 0.2)
   \<and> (getVerdict (Some p) = ''Uncertain'' \<longleftrightarrow> 0.2 \<le> p \<and> p \<le> 0.8)
   \<and> getVerdict (Some 0.8) = ''Uncertain'' \<and> getVerdict (Some 0.2) = ''Uncertain''
   \<and> getVerdict None = ''Uncertain (no score)''
   \<and> prefix (''* Verdict: **'' @ getVerdict (ansamble f) @ ''**\<newline>'') (faceBody cfg js f)
   \<and> (faces r = Some fs \<and> f \<in> set fs
        \<and> (falsy (message r)
             \<or> (status r \<noteq> Some ''no_faces_found'' \<and> status r \<noteq> Some ''no faces found''))
        \<and> fmt \<noteq> Some ''json'' \<longrightarrow>
         mentions (''* Verdict: **'' @ getVerdict (ansamble f) @ ''**\<newline>'') (renderResult cfg js fmt r))
   \<and> (faces r = Some fs \<and> k < length fs \<and> fmt \<noteq> Some ''json'' \<longrightarrow>
         selectFace cfg js su (real k) fmt r =
           (Inr (Text (''**Details for Face '' @ num_str js (real k + 1) @ '' (Session: ''
                       @ su @ ''):**\<newline>'' @ faceBody cfg js (fs ! k))), []))
   \<and> renderResult cfg js (Some ''json'') r = JsonResult r
   \<and> (faces r = Some fs \<and> k < length fs \<longrightarrow>
         selectFace cfg js su (real k) (Some ''json'') r = (Inr (JsonFace (fs ! k)), []))"
proof -
  have v1: "getVerdict (Some p) = ''Likely Real'' \<longleftrightarrow> p > 0.8"
    by (simp add: getVerdict_def)
  have v2: "getVerdict (Some p) = ''Likely Fake'' \<longleftrightarrow> p < 0.2"
    by (simp add: getVerdict_def)
  have v3: "getVerdict (Some p) = ''Uncertain'' \<longleftrightarrow> 0.2 \<le> p \<and> p \<le> 0.8"
    by (auto simp add: getVerdict_def)
  have v4: "getVerdict (Some 0.8) = ''Uncertain''" "getVerdict (Some 0.2) = ''Uncertain''"
    "getVerdict None = ''Uncertain (no score)''"
    by (simp_all add: getVerdict_def)
  have t1: "mentions (''* Verdict: **'' @ getVerdict (ansamble f) @ ''**\<newline>'') (renderResult cfg js fmt r)"
    if "faces r = Some fs" "f \<in> set fs"
       "falsy (message r) \<or> (status r \<noteq> Some ''no_faces_found'' \<and> status r \<noteq> Some ''no faces found'')"
       "fmt \<noteq> Some ''json''"
    using formatResults_lists_verdicts[OF that(1,2,3), of cfg js] that(4)
    by (simp add: renderResult_def mentions_def)
  have t2: "selectFace cfg js su (real k) fmt r =
           (Inr (Text (''**Details for Face '' @ num_str js (real k + 1) @ '' (Session: ''
                       @ su @ ''):**\<newline>'' @ faceBody cfg js (fs ! k))), [])"
    if "faces r = Some fs" "k < length fs" "fmt \<noteq> Some ''json''"
    using that by (simp add: selectFace_in_range)
  have j1: "renderResult cfg js (Some ''json'') r = JsonResult r"
    by (simp add: renderResult_def)
  have j2: "selectFace cfg js su (real k) (Some ''json'') r = (Inr (JsonFace (fs ! k)), [])"
    if "faces r = Some fs" "k < length fs"
    using that by (simp add: selectFace_in_range)
  from v1 v2 v3 v4 faceBody_verdict[of f cfg js] t1 t2 j1 j2 show ?thesis by blast
qed

text \<open>An instance: the sample result, whose one face has the score 0.9.\<close>

theorem verdict_mapping_and_its_use_witness:
  "getVerdict (Some 0.9) = ''Likely Real''
   \<and> faces sample_result = Some [sample_face] \<and> falsy (message sample_result)
   \<and> mentions ''* Verdict: **Likely Real**\<newline>''
        (renderResult PROOFLY_CONFIG sample_runtime None sample_result)
   \<and> selectFace PROOFLY_CONFIG sample_runtime ''abc'' 0 None sample_result =
        (Inr (Text (''**Details for Face # (Session: abc):**\<newline>''
                    @ faceBody PROOFLY_CONFIG sample_runtime sample_face)), [])
   \<and> selectFace PROOFLY_CONFIG sample_runtime ''abc'' 0 (Some ''json'') sample_result =
        (Inr (JsonFace sample_face), [])"
proof -
  have h1: "faces sample_result = Some [sample_face]" by (simp add: sample_result_def)
  have h2: "sample_face \<in> set [sample_face]" by simp
  have h3: "falsy (message sample_result)
       \<or> (status sample_result \<noteq> Some ''no_faces_found'' \<and> status sample_result \<noteq> Some ''no faces found'')"
    by (simp add: sample_result_def)
  have h4: "(None :: string option) \<noteq> Some ''json''" by simp
  have h5: "(0::nat) < length [sample_face]" by simp
  have h6: "falsy (message sample_result)" by (simp add: sample_result_def)
  have v: "getVerdict (ansamble sample_face) = ''Likely Real''"
    by (simp add: sample_face_def getVerdict_def)
  note r = verdict_mapping_and_its_use
     [where p = "0.9" and f = sample_face and cfg = PROOFLY_CONFIG and js = sample_runtime
        and r = sample_result and fs = "[sample_face]" and fmt = None and k = 0 and su = "''abc''"]
  from r have a: "getVerdict (Some 0.9) = ''Likely Real''" by simp
  from r h1 h2 h3 h4 have b: "mentions (''* Verdict: **'' @ getVerdict (ansamble sample_face) @ ''**\<newline>'')
        (renderResult PROOFLY_CONFIG sample_runtime None sample_result)"
    by blast
  from r h1 h5 h4 have c: "selectFace PROOFLY_CONFIG sample_runtime ''abc'' (real 0) None sample_result =
        (Inr (Text (''**Details for Face '' @ num_str sample_runtime (real 0 + 1) @ '' (Session: ''
                    @ ''abc'' @ ''):**\<newline>'' @ faceBody PROOFLY_CONFIG sample_runtime ([sample_face] ! 0))), [])"
    by blast
  from r h1 h5 have d: "selectFace PROOFLY_CONFIG sample_runtime ''abc'' (real 0) (Some ''json'') sample_result =
        (Inr (JsonFace ([sample_face] ! 0)), [])"
    by blast
  have n: "num_str sample_runtime 1 = ''#''" by (simp add: sample_runtime_def)
  from a b c d h1 h6 show ?thesis by (simp add: v n)
qed

text \<open>
  C3 as stated fails in its last part: for a face with the score 0.9 the verdict is
  \<open>Likely Real\<close>, and the JSON output of the face details and of the analysis is the
  payload with no such string; only the text output holds it.
\<close>

theorem json_output_carries_no_verdict:
  "handleGetFaceDetails PROOFLY_CONFIG sample_runtime
     (service (Ok (Some ''abc'')) (script [] (status_reply ''done'' None)) (Ok sample_result))
     (Some ''abc'') (JNum 0) (Some ''json'')
   = (Inr (JsonFace sample_face), [GetResult ''https://api.proofly.ai/api/abc''])
   \<and> getVerdict (ansamble sample_face) = ''Likely Real''
   \<and> \<not> mentions ''Likely Real'' (JsonFace sample_face)
   \<and> renderResult PROOFLY_CONFIG sample_runtime (Some ''json'') sample_result = JsonResult sample_result
   \<and> \<not> mentions ''Likely Real'' (JsonResult sample_result)
   \<and> mentions ''Likely Real'' (renderResult PROOFLY_CONFIG sample_runtime None sample_result)"
proof -
  have a: "getVerdict (ansamble sample_face) = ''Likely Real''"
    by (simp add: sample_face_def getVerdict_def)
  have b: "\<not> mentions ''Likely Real'' (JsonFace sample_face)"
    by (simp add: mentions_def face_strings_def sample_face_def)
  have c: "renderResult PROOFLY_CONFIG sample_runtime (Some ''json'') sample_result = JsonResult sample_result"
    by (simp add: renderResult_def)
  have d: "\<not> mentions ''Likely Real'' (JsonResult sample_result)"
    by (simp add: mentions_def result_strings_def face_strings_def sample_result_def sample_face_def)
  have e: "mentions ''Likely Real'' (renderResult PROOFLY_CONFIG sample_runtime None sample_result)"
    by (simp add: mentions_def renderResult_def formatResultsToHumanReadable_def faceBlock_def
          faceBody_def getVerdict_def sample_result_def sample_face_def sample_runtime_def)
  from sample_face_details a b c d e show ?thesis by blast
qed

section \<open>C4: a status that ends the loop without a result\<close>

text \<open>
  C4. When the loop of session \<open>u\<close> ends with a status that is none of \<open>done\<close>,
  \<open>completed\<close>, \<open>no_faces_found\<close> and \<open>no faces found\<close>, and no reply carried an
  embedded result, the session fails with the error
  \<open>Analysis did not complete successfully. Last status: ...\<close> that names the last
  status, and no further request is made. Both analyze handlers surface it as a
  \<open>ServerError\<close> with that message; neither returns a result.
\<close>

theorem incomplete_analysis_fails_with_last_status:
  assumes "u \<noteq> []"
    and "pollSession cfg R u = (Inr st, cs)"
    and "analysisResult st = None"
    and "cur_status st \<noteq> Some ''done''" and "cur_status st \<noteq> Some ''completed''"
    and "cur_status st \<noteq> Some ''no_faces_found''" and "cur_status st \<noteq> Some ''no faces found''"
  shows "awaitAnalysis cfg R (Some u) =
           (Inl (Error (''Analysis did not complete successfully. Last status: ''
                         @ str_of (cur_status st))), cs)
    \<and> (b \<noteq> [] \<and> f \<noteq> [] \<and> decodeImage js b = Inr buf
         \<and> http_post_upload R (uploadUrl cfg) buf f (getContentTypeFromFilename f) = Ok (Some u) \<longrightarrow>
       handleAnalyzeImage cfg js R (Some b) (Some f) fmt =
         (Inl (McpError ServerError
                (''Failed to analyze image: Analysis did not complete successfully. Last status: ''
                 @ str_of (cur_status st))),
          Upload (uploadUrl cfg) buf f (getContentTypeFromFilename f) # cs))
    \<and> (url \<noteq> [] \<and> http_get_image R url = Ok (buf', ctype)
         \<and> http_post_upload R (uploadUrl cfg) buf' (originalFilename url)
               (Some (if falsy ctype then ''application/octet-stream'' else str_of ctype)) = Ok (Some u) \<longrightarrow>
       handleAnalyzeImageUrl cfg js R (Some url) fmt =
         (Inl (McpError ServerError
                (''Failed to analyze image URL: Analysis did not complete successfully. Last status: ''
                 @ str_of (cur_status st))),
          Download url # Upload (uploadUrl cfg) buf' (originalFilename url)
               (Some (if falsy ctype then ''application/octet-stream'' else str_of ctype)) # cs))"
proof -
  have a: "awaitAnalysis cfg R (Some u) =
           (Inl (Error (''Analysis did not complete successfully. Last status: ''
                         @ str_of (cur_status st))), cs)"
    using assms by (simp add: awaitAnalysis_polled finalResult_incomplete)
  have b: "handleAnalyzeImage cfg js R (Some b) (Some f) fmt =
         (Inl (McpError ServerError
                (''Failed to analyze image: Analysis did not complete successfully. Last status: ''
                 @ str_of (cur_status st))),
          Upload (uploadUrl cfg) buf f (getContentTypeFromFilename f) # cs)"
    if "b \<noteq> []" "f \<noteq> []" "decodeImage js b = Inr buf"
       "http_post_upload R (uploadUrl cfg) buf f (getContentTypeFromFilename f) = Ok (Some u)"
    using that a by (simp add: handleAnalyzeImage_submitted submit_uploaded)
  have c: "handleAnalyzeImageUrl cfg js R (Some url) fmt =
         (Inl (McpError ServerError
                (''Failed to analyze image URL: Analysis did not complete successfully. Last status: ''
                 @ str_of (cur_status st))),
          Download url # Upload (uploadUrl cfg) buf' (originalFilename url)
               (Some (if falsy ctype then ''application/octet-stream'' else str_of ctype)) # cs)"
    if "url \<noteq> []" "http_get_image R url = Ok (buf', ctype)"
       "http_post_upload R (uploadUrl cfg) buf' (originalFilename url)
               (Some (if falsy ctype then ''application/octet-stream'' else str_of ctype)) = Ok (Some u)"
    using that a by (simp add: handleAnalyzeImageUrl_submitted submit_uploaded)
  from a b c show ?thesis by blast
qed

text \<open>An instance: the first reply has the status \<open>failed\<close>.\<close>

theorem incomplete_analysis_fails_with_last_status_witness:
  "pollSession PROOFLY_CONFIG
     (service (Ok (Some ''abc'')) (script [status_reply ''failed'' None] (status_reply ''done'' None))
        (Ok sample_result)) ''abc''
     = (Inr \<lparr> cur_status = Some ''failed'', attempts = 1, analysisResult = None \<rparr>,
        [Sleep 2000, GetStatus ''https://api.proofly.ai/api/abc/status''])
   \<and> awaitAnalysis PROOFLY_CONFIG
     (service (Ok (Some ''abc'')) (script [status_reply ''failed'' None] (status_reply ''done'' None))
        (Ok sample_result)) (Some ''abc'')
     = (Inl (Error ''Analysis did not complete successfully. Last status: failed''),
        [Sleep 2000, GetStatus ''https://api.proofly.ai/api/abc/status''])
   \<and> handleAnalyzeImage PROOFLY_CONFIG sample_runtime
     (service (Ok (Some ''abc'')) (script [status_reply ''failed'' None] (status_reply ''done'' None))
        (Ok sample_result)) (Some ''QUJD'') (Some ''a.png'') None
     = (Inl (McpError ServerError
              ''Failed to analyze image: Analysis did not complete successfully. Last status: failed''),
        [Upload ''https://api.proofly.ai/api/upload'' (map of_char ''QUJD'') ''a.png'' (Some ''image/png''),
         Sleep 2000, GetStatus ''https://api.proofly.ai/api/abc/status''])
   \<and> handleAnalyzeImageUrl PROOFLY_CONFIG sample_runtime
     (service (Ok (Some ''abc'')) (script [status_reply ''failed'' None] (status_reply ''done'' None))
        (Ok sample_result)) (Some ''https://x.org/cat.png'') None
     = (Inl (McpError ServerError
              ''Failed to analyze image URL: Analysis did not complete successfully. Last status: failed''),
        [Download ''https://x.org/cat.png'',
         Upload ''https://api.proofly.ai/api/upload'' [1, 2, 3] ''cat.png'' (Some ''image/png''),
         Sleep 2000, GetStatus ''https://api.proofly.ai/api/abc/status''])"
proof -
  let ?R = "service (Ok (Some ''abc'')) (script [status_reply ''failed'' None] (status_reply ''done'' None))
        (Ok sample_result)"
  let ?st = "\<lparr> cur_status = Some ''failed'', attempts = 1, analysisResult = None \<rparr>"
  let ?cs = "[Sleep 2000, GetStatus ''https://api.proofly.ai/api/abc/status'']"
  have h1: "''abc'' \<noteq> []" by simp
  have h2: "pollSession PROOFLY_CONFIG ?R ''abc'' = (Inr ?st, ?cs)"
    by (simp add: pollSession_def statusUrl_def initial_state_def pollStatus.simps service_def
          script_def status_reply_def polling_def PROOFLY_CONFIG_def)
  have h3: "analysisResult ?st = None" by simp
  have h4: "cur_status ?st \<noteq> Some ''done''" "cur_status ?st \<noteq> Some ''completed''"
    "cur_status ?st \<noteq> Some ''no_faces_found''" "cur_status ?st \<noteq> Some ''no faces found''"
    by simp_all
  have g1: "''QUJD'' \<noteq> [] \<and> ''a.png'' \<noteq> [] \<and> decodeImage sample_runtime ''QUJD'' = Inr (map of_char ''QUJD'')
      \<and> http_post_upload ?R (uploadUrl PROOFLY_CONFIG) (map of_char ''QUJD'') ''a.png''
            (getContentTypeFromFilename ''a.png'') = Ok (Some ''abc'')"
    by (simp add: decodeImage_def sample_runtime_def service_def)
  have g2: "''https://x.org/cat.png'' \<noteq> [] \<and> http_get_image ?R ''https://x.org/cat.png'' = Ok ([1, 2, 3], Some ''image/png'')
      \<and> http_post_upload ?R (uploadUrl PROOFLY_CONFIG) [1, 2, 3] (originalFilename ''https://x.org/cat.png'')
            (Some (if falsy (Some ''image/png'') then ''application/octet-stream'' else str_of (Some ''image/png'')))
          = Ok (Some ''abc'')"
    by (simp add: service_def)
  have e1: "getContentTypeFromFilename ''a.png'' = Some ''image/png''"
    by (simp add: getContentTypeFromFilename_def contentTypes_def lower_char_def)
  have e2: "originalFilename ''https://x.org/cat.png'' = ''cat.png''"
    by (simp add: originalFilename_def)
  have e3: "uploadUrl PROOFLY_CONFIG = ''https://api.proofly.ai/api/upload''"
    by (simp add: uploadUrl_def PROOFLY_CONFIG_def)
  note r = incomplete_analysis_fails_with_last_status
         [OF h1 h2 h3 h4, where b = "''QUJD''" and f = "''a.png''" and js = sample_runtime
            and buf = "map of_char ''QUJD''" and fmt = None and url = "''https://x.org/cat.png''"
            and buf' = "[1, 2, 3]" and ctype = "Some ''image/png''"]
  from r have a: "awaitAnalysis PROOFLY_CONFIG ?R (Some ''abc'')
     = (Inl (Error ''Analysis did not complete successfully. Last status: failed''), ?cs)"
    by simp
  from r g1 have b: "handleAnalyzeImage PROOFLY_CONFIG sample_runtime ?R (Some ''QUJD'') (Some ''a.png'') None
     = (Inl (McpError ServerError
              ''Failed to analyze image: Analysis did not complete successfully. Last status: failed''),
        Upload ''https://api.proofly.ai/api/upload'' (map of_char ''QUJD'') ''a.png'' (Some ''image/png'') # ?cs)"
    by (simp add: e1 e3)
  from r g2 have c: "handleAnalyzeImageUrl PROOFLY_CONFIG sample_runtime ?R (Some ''https://x.org/cat.png'') None
     = (Inl (McpError ServerError
              ''Failed to analyze image URL: Analysis did not complete successfully. Last status: failed''),
        Download ''https://x.org/cat.png''
        # Upload ''https://api.proofly.ai/api/upload'' [1, 2, 3] ''cat.png'' (Some ''image/png'') # ?cs)"
    by (simp add: e2 e3)
  from h2 a b c show ?thesis by simp
qed

section \<open>C5: no faces found\<close>

text \<open>
  C5. When the loop of session \<open>u\<close> ends with the status \<open>no_faces_found\<close> or
  \<open>no faces found\<close> and no reply carried an embedded result, the session resolves with
  the synthesized result: status \<open>no_faces_found\<close>, an empty list of faces and the
  message \<open>No faces detected in the image.\<close>; no further request is made, and
  \<open>handleAnalyzeImage\<close> returns that result.
\<close>

theorem no_faces_status_gives_synthesized_result:
  assumes "u \<noteq> []"
    and "pollSession cfg R u = (Inr st, cs)"
    and "analysisResult st = None"
    and "cur_status st = Some ''no_faces_found'' \<or> cur_status st = Some ''no faces found''"
  shows "awaitAnalysis cfg R (Some u) = (Inr (noFacesResult u), cs)
    \<and> status (noFacesResult u) = Some ''no_faces_found''
    \<and> faces (noFacesResult u) = Some []
    \<and> message (noFacesResult u) = Some ''No faces detected in the image.''
    \<and> (b \<noteq> [] \<and> f \<noteq> [] \<and> decodeImage js b = Inr buf
         \<and> http_post_upload R (uploadUrl cfg) buf f (getContentTypeFromFilename f) = Ok (Some u) \<longrightarrow>
       handleAnalyzeImage cfg js R (Some b) (Some f) (Some ''json'') =
         (Inr (JsonResult (noFacesResult u)),
          Upload (uploadUrl cfg) buf f (getContentTypeFromFilename f) # cs))"
proof -
  have a: "awaitAnalysis cfg R (Some u) = (Inr (noFacesResult u), cs)"
    using assms by (simp add: awaitAnalysis_polled finalResult_no_faces)
  have b: "handleAnalyzeImage cfg js R (Some b) (Some f) (Some ''json'') =
         (Inr (JsonResult (noFacesResult u)),
          Upload (uploadUrl cfg) buf f (getContentTypeFromFilename f) # cs)"
    if "b \<noteq> []" "f \<noteq> []" "decodeImage js b = Inr buf"
       "http_post_upload R (uploadUrl cfg) buf f (getContentTypeFromFilename f) = Ok (Some u)"
    using that a by (simp add: handleAnalyzeImage_submitted submit_uploaded renderResult_def)
  have c: "status (noFacesResult u) = Some ''no_faces_found''"
    "faces (noFacesResult u) = Some []"
    "message (noFacesResult u) = Some ''No faces detected in the image.''"
    by (simp_all add: noFacesResult_def)
  from a b c show ?thesis by blast
qed

text \<open>An instance: the first reply has the status \<open>no_faces_found\<close>.\<close>

theorem no_faces_status_gives_synthesized_result_witness:
  "pollSession PROOFLY_CONFIG
     (service (Ok (Some ''abc'')) (script [] (status_reply ''no_faces_found'' None)) (Ok sample_result))
     ''abc''
     = (Inr \<lparr> cur_status = Some ''no_faces_found'', attempts = 1, analysisResult = None \<rparr>,
        [Sleep 2000, GetStatus ''https://api.proofly.ai/api/abc/status''])
   \<and> awaitAnalysis PROOFLY_CONFIG
     (service (Ok (Some ''abc'')) (script [] (status_reply ''no_faces_found'' None)) (Ok sample_result))
     (Some ''abc'')
     = (Inr \<lparr> uuid = Some ''abc'', sha256 = None, status = Some ''no_faces_found'',
              message = Some ''No faces detected in the image.'', faces = Some [],
              total_faces = Some 0 \<rparr>,
        [Sleep 2000, GetStatus ''https://api.proofly.ai/api/abc/status''])
   \<and> handleAnalyzeImage PROOFLY_CONFIG sample_runtime
     (service (Ok (Some ''abc'')) (script [] (status_reply ''no_faces_found'' None)) (Ok sample_result))
     (Some ''QUJD'') (Some ''a.png'') (Some ''json'')
     = (Inr (JsonResult \<lparr> uuid = Some ''abc'', sha256 = None, status = Some ''no_faces_found'',
              message = Some ''No faces detected in the image.'', faces = Some [],
              total_faces = Some 0 \<rparr>),
        [Upload ''https://api.proofly.ai/api/upload'' (map of_char ''QUJD'') ''a.png'' (Some ''image/png''),
         Sleep 2000, GetStatus ''https://api.proofly.ai/api/abc/status''])"
proof -
  let ?R = "service (Ok (Some ''abc'')) (script [] (status_reply ''no_faces_found'' None)) (Ok sample_result)"
  let ?st = "\<lparr> cur_status = Some ''no_faces_found'', attempts = 1, analysisResult = None \<rparr>"
  let ?cs = "[Sleep 2000, GetStatus ''https://api.proofly.ai/api/abc/status'']"
  have h1: "''abc'' \<noteq> []" by simp
  have h2: "pollSession PROOFLY_CONFIG ?R ''abc'' = (Inr ?st, ?cs)"
    by (simp add: pollSession_def statusUrl_def initial_state_def pollStatus.simps service_def
          script_def status_reply_def polling_def PROOFLY_CONFIG_def)
  have h3: "analysisResult ?st = None" by simp
  have h4: "cur_status ?st = Some ''no_faces_found'' \<or> cur_status ?st = Some ''no faces found''"
    by simp
  have g1: "''QUJD'' \<noteq> [] \<and> ''a.png'' \<noteq> [] \<and> decodeImage sample_runtime ''QUJD'' = Inr (map of_char ''QUJD'')
      \<and> http_post_upload ?R (uploadUrl PROOFLY_CONFIG) (map of_char ''QUJD'') ''a.png''
            (getContentTypeFromFilename ''a.png'') = Ok (Some ''abc'')"
    by (simp add: sample_image service_def)
  note r = no_faces_status_gives_synthesized_result
         [OF h1 h2 h3 h4, where b = "''QUJD''" and f = "''a.png''" and js = sample_runtime
            and buf = "map of_char ''QUJD''"]
  from r have a: "awaitAnalysis PROOFLY_CONFIG ?R (Some ''abc'') = (Inr (noFacesResult ''abc''), ?cs)"
    by simp
  from r g1 have b: "handleAnalyzeImage PROOFLY_CONFIG sample_runtime ?R (Some ''QUJD'') (Some ''a.png'')
       (Some ''json'')
     = (Inr (JsonResult (noFacesResult ''abc'')),
        Upload ''https://api.proofly.ai/api/upload'' (map of_char ''QUJD'') ''a.png'' (Some ''image/png'') # ?cs)"
    by (simp add: sample_image sample_urls)
  from h2 a b show ?thesis by (simp add: noFacesResult_def)
qed

section \<open>C6: the face at an index\<close>

text \<open>
  C6, as amended. With a session identifier and a result \<open>r\<close> fetched for it: for a
  whole index \<open>k\<close> below the number of faces the handler returns the face \<open>faces[k]\<close>
  as it is (as JSON), or the text built from that face; a negative index is refused by
  the parameter check, with \<open>InvalidParams\<close> and before any request; for an index at or
  past the number of faces, and when \<open>faces\<close> is absent, the handler fails after the one
  request. Which error it fails with is not part of this statement.
\<close>

theorem face_details_by_index:
  assumes "su \<noteq> []" and "http_get_result R (resultUrl cfg su) = Ok r"
  shows "(faces r = Some fs \<and> k < length fs \<longrightarrow>
            handleGetFaceDetails cfg js R (Some su) (JNum (real k)) (Some ''json'') =
              (Inr (JsonFace (fs ! k)), [GetResult (resultUrl cfg su)])
          \<and> (fmt \<noteq> Some ''json'' \<longrightarrow>
              handleGetFaceDetails cfg js R (Some su) (JNum (real k)) fmt =
                (Inr (Text (''**Details for Face '' @ num_str js (real k + 1) @ '' (Session: ''
                            @ su @ ''):**\<newline>'' @ faceBody cfg js (fs ! k))),
                 [GetResult (resultUrl cfg su)])))
    \<and> (i < 0 \<longrightarrow>
          handleGetFaceDetails cfg js R (Some su) (JNum i) fmt =
            (Inl (McpError InvalidParams ''Missing or invalid sessionUuid or faceIndex parameter''), []))
    \<and> (0 \<le> i \<and> (faces r = None \<or> (faces r = Some fs \<and> real (length fs) \<le> i)) \<longrightarrow>
          (\<exists>e. handleGetFaceDetails cfg js R (Some su) (JNum i) fmt =
                 (Inl e, [GetResult (resultUrl cfg su)])))"
proof -
  have a: "handleGetFaceDetails cfg js R (Some su) (JNum (real k)) (Some ''json'') =
              (Inr (JsonFace (fs ! k)), [GetResult (resultUrl cfg su)])"
    if "faces r = Some fs" "k < length fs"
    using assms that by (simp add: handleGetFaceDetails_fetched selectFace_in_range)
  have b: "handleGetFaceDetails cfg js R (Some su) (JNum (real k)) fmt =
                (Inr (Text (''**Details for Face '' @ num_str js (real k + 1) @ '' (Session: ''
                            @ su @ ''):**\<newline>'' @ faceBody cfg js (fs ! k))),
                 [GetResult (resultUrl cfg su)])"
    if "faces r = Some fs" "k < length fs" "fmt \<noteq> Some ''json''"
    using assms that by (simp add: handleGetFaceDetails_fetched selectFace_in_range)
  have c: "handleGetFaceDetails cfg js R (Some su) (JNum i) fmt =
            (Inl (McpError InvalidParams ''Missing or invalid sessionUuid or faceIndex parameter''), [])"
    if "i < 0"
    using that by (simp add: handleGetFaceDetails_def)
  have d: "\<exists>e. handleGetFaceDetails cfg js R (Some su) (JNum i) fmt =
                 (Inl e, [GetResult (resultUrl cfg su)])"
    if "0 \<le> i" "faces r = None \<or> (faces r = Some fs \<and> real (length fs) \<le> i)"
    using face_index_past_end_is_rewrapped[OF assms(1) that(1) assms(2) that(2)] by blast
  from a b c d show ?thesis by blast
qed

text \<open>An instance: a result with one face, and the indices 0, -2 and 1.\<close>

theorem face_details_by_index_witness:
  "handleGetFaceDetails PROOFLY_CONFIG sample_runtime
     (service (Ok (Some ''abc'')) (script [] (status_reply ''done'' None)) (Ok sample_result))
     (Some ''abc'') (JNum 0) (Some ''json'')
   = (Inr (JsonFace sample_face), [GetResult ''https://api.proofly.ai/api/abc''])
   \<and> handleGetFaceDetails PROOFLY_CONFIG sample_runtime
     (service (Ok (Some ''abc'')) (script [] (status_reply ''done'' None)) (Ok sample_result))
     (Some ''abc'') (JNum 0) None
   = (Inr (Text (''**Details for Face # (Session: abc):**\<newline>''
                 @ faceBody PROOFLY_CONFIG sample_runtime sample_face)),
      [GetResult ''https://api.proofly.ai/api/abc''])
   \<and> handleGetFaceDetails PROOFLY_CONFIG sample_runtime
     (service (Ok (Some ''abc'')) (script [] (status_reply ''done'' None)) (Ok sample_result))
     (Some ''abc'') (JNum (- 2)) None
   = (Inl (McpError InvalidParams ''Missing or invalid sessionUuid or faceIndex parameter''), [])
   \<and> isl (fst (handleGetFaceDetails PROOFLY_CONFIG sample_runtime
     (service (Ok (Some ''abc'')) (script [] (status_reply ''done'' None)) (Ok sample_result))
     (Some ''abc'') (JNum 1) None))"
proof -
  let ?R = "service (Ok (Some ''abc'')) (script [] (status_reply ''done'' None)) (Ok sample_result)"
  have h1: "''abc'' \<noteq> []" by simp
  have h2: "http_get_result ?R (resultUrl PROOFLY_CONFIG ''abc'') = Ok sample_result"
    by (simp add: service_def)
  have f: "faces sample_result = Some [sample_face]" by (simp add: sample_result_def)
  have n: "num_str sample_runtime 1 = ''#''" by (simp add: sample_runtime_def)
  note r0 = face_details_by_index[OF h1 h2, where fs = "[sample_face]" and k = 0 and js = sample_runtime
               and fmt = None and i = "- 2"]
  note r1 = face_details_by_index[OF h1 h2, where fs = "[sample_face]" and k = 0 and js = sample_runtime
               and fmt = None and i = 1]
  from r0 f have a: "handleGetFaceDetails PROOFLY_CONFIG sample_runtime ?R (Some ''abc'') (JNum 0) (Some ''json'')
      = (Inr (JsonFace sample_face), [GetResult ''https://api.proofly.ai/api/abc''])"
    by (simp add: sample_urls)
  from r0 f have b: "handleGetFaceDetails PROOFLY_CONFIG sample_runtime ?R (Some ''abc'') (JNum 0) None
      = (Inr (Text (''**Details for Face # (Session: abc):**\<newline>''
                 @ faceBody PROOFLY_CONFIG sample_runtime sample_face)),
         [GetResult ''https://api.proofly.ai/api/abc''])"
    by (simp add: sample_urls n)
  from r0 have c: "handleGetFaceDetails PROOFLY_CONFIG sample_runtime ?R (Some ''abc'') (JNum (- 2)) None
      = (Inl (McpError InvalidParams ''Missing or invalid sessionUuid or faceIndex parameter''), [])"
    by simp
  from r1 f have d: "isl (fst (handleGetFaceDetails PROOFLY_CONFIG sample_runtime ?R (Some ''abc'') (JNum 1) None))"
    by auto
  from a b c d show ?thesis by blast
qed

text \<open>
  C6 as stated fails: the index \<open>-1\<close> is outside the range of a result with one face,
  and the error is \<open>InvalidParams\<close>, not the not-found error.
\<close>

theorem negative_face_index_is_not_a_not_found_error:
  "faces sample_result = Some [sample_face]
   \<and> handleGetFaceDetails PROOFLY_CONFIG sample_runtime
     (service (Ok (Some ''abc'')) (script [] (status_reply ''done'' None)) (Ok sample_result))
     (Some ''abc'') (JNum (- 1)) (Some ''json'')
   = (Inl (McpError InvalidParams ''Missing or invalid sessionUuid or faceIndex parameter''), [])
   \<and> InvalidParams \<noteq> NotFound"
  by (simp add: handleGetFaceDetails_def sample_result_def)

section \<open>C7: the explicit fetch\<close>

text \<open>
  C7. When the loop of session \<open>u\<close> ends with the status \<open>done\<close> or \<open>completed\<close> and
  no reply carried an embedded result, the session requests the full result of \<open>u\<close>
  exactly once, after the loop; it resolves with the fetched result when the request
  succeeds and fails with its error otherwise. Both analyze handlers render the fetched
  result.
\<close>

theorem done_without_result_fetches_once:
  assumes "u \<noteq> []"
    and "pollSession cfg R u = (Inr st, cs)"
    and "analysisResult st = None"
    and "cur_status st = Some ''done'' \<or> cur_status st = Some ''completed''"
  shows "(http_get_result R (resultUrl cfg u) = Ok r \<longrightarrow>
           awaitAnalysis cfg R (Some u) = (Inr r, cs @ [GetResult (resultUrl cfg u)]))
    \<and> (http_get_result R (resultUrl cfg u) = Fail c m \<longrightarrow>
           awaitAnalysis cfg R (Some u) = (Inl (AxiosError c m), cs @ [GetResult (resultUrl cfg u)]))
    \<and> resultCalls (snd (awaitAnalysis cfg R (Some u))) = 1
    \<and> (http_get_result R (resultUrl cfg u) = Ok r \<and> b \<noteq> [] \<and> f \<noteq> [] \<and> decodeImage js b = Inr buf
         \<and> http_post_upload R (uploadUrl cfg) buf f (getContentTypeFromFilename f) = Ok (Some u) \<longrightarrow>
       handleAnalyzeImage cfg js R (Some b) (Some f) fmt =
         (Inr (renderResult cfg js fmt r),
          Upload (uploadUrl cfg) buf f (getContentTypeFromFilename f) # cs @ [GetResult (resultUrl cfg u)]))
    \<and> (http_get_result R (resultUrl cfg u) = Ok r \<and> url \<noteq> [] \<and> http_get_image R url = Ok (buf', ctype)
         \<and> http_post_upload R (uploadUrl cfg) buf' (originalFilename url)
               (Some (if falsy ctype then ''application/octet-stream'' else str_of ctype)) = Ok (Some u) \<longrightarrow>
       handleAnalyzeImageUrl cfg js R (Some url) fmt =
         (Inr (renderResult cfg js fmt r),
          Download url # Upload (uploadUrl cfg) buf' (originalFilename url)
               (Some (if falsy ctype then ''application/octet-stream'' else str_of ctype))
          # cs @ [GetResult (resultUrl cfg u)]))"
proof -
  have fin: "awaitAnalysis cfg R (Some u) =
      (case fetchResult R (resultUrl cfg u) of (r, cs') \<Rightarrow> (r, cs @ cs'))"
    using assms by (simp add: awaitAnalysis_polled finalResult_fetch)
  from pollSession_calls[of cfg R u] assms(2)
  obtain n where "cs = rounds cfg (statusUrl cfg u) n" by auto
  then have none: "resultCalls cs = 0" by (simp add: resultCalls_rounds)
  have a: "awaitAnalysis cfg R (Some u) = (Inr r, cs @ [GetResult (resultUrl cfg u)])"
    if "http_get_result R (resultUrl cfg u) = Ok r"
    using that fin by (simp add: fetchResult_def)
  have b: "awaitAnalysis cfg R (Some u) = (Inl (AxiosError c m), cs @ [GetResult (resultUrl cfg u)])"
    if "http_get_result R (resultUrl cfg u) = Fail c m"
    using that fin by (simp add: fetchResult_def)
  have c: "resultCalls (snd (awaitAnalysis cfg R (Some u))) = 1"
    using fin none
    by (cases "http_get_result R (resultUrl cfg u)") (simp_all add: fetchResult_def resultCalls_def)
  have d: "handleAnalyzeImage cfg js R (Some b) (Some f) fmt =
         (Inr (renderResult cfg js fmt r),
          Upload (uploadUrl cfg) buf f (getContentTypeFromFilename f) # cs @ [GetResult (resultUrl cfg u)])"
    if "http_get_result R (resultUrl cfg u) = Ok r" "b \<noteq> []" "f \<noteq> []" "decodeImage js b = Inr buf"
       "http_post_upload R (uploadUrl cfg) buf f (getContentTypeFromFilename f) = Ok (Some u)"
    using that a by (simp add: handleAnalyzeImage_submitted submit_uploaded)
  have e: "handleAnalyzeImageUrl cfg js R (Some url) fmt =
         (Inr (renderResult cfg js fmt r),
          Download url # Upload (uploadUrl cfg) buf' (originalFilename url)
               (Some (if falsy ctype then ''application/octet-stream'' else str_of ctype))
          # cs @ [GetResult (resultUrl cfg u)])"
    if "http_get_result R (resultUrl cfg u) = Ok r" "url \<noteq> []" "http_get_image R url = Ok (buf', ctype)"
       "http_post_upload R (uploadUrl cfg) buf' (originalFilename url)
               (Some (if falsy ctype then ''application/octet-stream'' else str_of ctype)) = Ok (Some u)"
    using that a by (simp add: handleAnalyzeImageUrl_submitted submit_uploaded)
  from a b c d e show ?thesis by blast
qed

text \<open>An instance: \<open>processing\<close>, then \<open>done\<close> without an embedded result.\<close>

theorem done_without_result_fetches_once_witness:
  "pollSession PROOFLY_CONFIG
     (service (Ok (Some ''abc'')) (script [status_reply ''processing'' None] (status_reply ''done'' None))
        (Ok sample_result)) ''abc''
     = (Inr \<lparr> cur_status = Some ''done'', attempts = 2, analysisResult = None \<rparr>,
        [Sleep 2000, GetStatus ''https://api.proofly.ai/api/abc/status'',
         Sleep 2000, GetStatus ''https://api.proofly.ai/api/abc/status''])
   \<and> awaitAnalysis PROOFLY_CONFIG
     (service (Ok (Some ''abc'')) (script [status_reply ''processing'' None] (status_reply ''done'' None))
        (Ok sample_result)) (Some ''abc'')
     = (Inr sample_result,
        [Sleep 2000, GetStatus ''https://api.proofly.ai/api/abc/status'',
         Sleep 2000, GetStatus ''https://api.proofly.ai/api/abc/status'',
         GetResult ''https://api.proofly.ai/api/abc''])
   \<and> handleAnalyzeImage PROOFLY_CONFIG sample_runtime
     (service (Ok (Some ''abc'')) (script [status_reply ''processing'' None] (status_reply ''done'' None))
        (Ok sample_result)) (Some ''QUJD'') (Some ''a.png'') (Some ''json'')
     = (Inr (JsonResult sample_result),
        [Upload ''https://api.proofly.ai/api/upload'' (map of_char ''QUJD'') ''a.png'' (Some ''image/png''),
         Sleep 2000, GetStatus ''https://api.proofly.ai/api/abc/status'',
         Sleep 2000, GetStatus ''https://api.proofly.ai/api/abc/status'',
         GetResult ''https://api.proofly.ai/api/abc''])
   \<and> handleAnalyzeImageUrl PROOFLY_CONFIG sample_runtime
     (service (Ok (Some ''abc'')) (script [status_reply ''processing'' None] (status_reply ''done'' None))
        (Ok sample_result)) (Some ''https://x.org/cat.png'') (Some ''json'')
     = (Inr (JsonResult sample_result),
        [Download ''https://x.org/cat.png'',
         Upload ''https://api.proofly.ai/api/upload'' [1, 2, 3] ''cat.png'' (Some ''image/png''),
         Sleep 2000, GetStatus ''https://api.proofly.ai/api/abc/status'',
         Sleep 2000, GetStatus ''https://api.proofly.ai/api/abc/status'',
         GetResult ''https://api.proofly.ai/api/abc''])"
proof -
  let ?R = "service (Ok (Some ''abc'')) (script [status_reply ''processing'' None] (status_reply ''done'' None))
        (Ok sample_result)"
  let ?st = "\<lparr> cur_status = Some ''done'', attempts = 2, analysisResult = None \<rparr>"
  let ?cs = "[Sleep 2000, GetStatus ''https://api.proofly.ai/api/abc/status'',
         Sleep 2000, GetStatus ''https://api.proofly.ai/api/abc/status'']"
  have h1: "''abc'' \<noteq> []" by simp
  have h2: "pollSession PROOFLY_CONFIG ?R ''abc'' = (Inr ?st, ?cs)"
    by (simp add: pollSession_def statusUrl_def initial_state_def pollStatus.simps service_def
          script_def status_reply_def polling_def PROOFLY_CONFIG_def)
  have h3: "analysisResult ?st = None" by simp
  have h4: "cur_status ?st = Some ''done'' \<or> cur_status ?st = Some ''completed''"
    by simp
  have g0: "http_get_result ?R (resultUrl PROOFLY_CONFIG ''abc'') = Ok sample_result"
    by (simp add: service_def)
  have g1: "''QUJD'' \<noteq> [] \<and> ''a.png'' \<noteq> [] \<and> decodeImage sample_runtime ''QUJD'' = Inr (map of_char ''QUJD'')
      \<and> http_post_upload ?R (uploadUrl PROOFLY_CONFIG) (map of_char ''QUJD'') ''a.png''
            (getContentTypeFromFilename ''a.png'') = Ok (Some ''abc'')"
    by (simp add: sample_image service_def)
  have g2: "''https://x.org/cat.png'' \<noteq> [] \<and> http_get_image ?R ''https://x.org/cat.png'' = Ok ([1, 2, 3], Some ''image/png'')
      \<and> http_post_upload ?R (uploadUrl PROOFLY_CONFIG) [1, 2, 3] (originalFilename ''https://x.org/cat.png'')
            (Some (if falsy (Some ''image/png'') then ''application/octet-stream'' else str_of (Some ''image/png'')))
          = Ok (Some ''abc'')"
    by (simp add: service_def)
  note r = done_without_result_fetches_once
         [OF h1 h2 h3 h4, where r = sample_result and b = "''QUJD''" and f = "''a.png''"
            and js = sample_runtime and buf = "map of_char ''QUJD''" and fmt = "Some ''json''"
            and url = "''https://x.org/cat.png''" and buf' = "[1, 2, 3]" and ctype = "Some ''image/png''"]
  from r g0 have a: "awaitAnalysis PROOFLY_CONFIG ?R (Some ''abc'')
      = (Inr sample_result, ?cs @ [GetResult ''https://api.proofly.ai/api/abc''])"
    by (simp add: sample_urls)
  from r g0 g1 have b: "handleAnalyzeImage PROOFLY_CONFIG sample_runtime ?R (Some ''QUJD'') (Some ''a.png'')
       (Some ''json'')
     = (Inr (JsonResult sample_result),
        Upload ''https://api.proofly.ai/api/upload'' (map of_char ''QUJD'') ''a.png'' (Some ''image/png'')
        # ?cs @ [GetResult ''https://api.proofly.ai/api/abc''])"
    by (simp add: sample_image sample_urls renderResult_def)
  from r g0 g2 have c: "handleAnalyzeImageUrl PROOFLY_CONFIG sample_runtime ?R (Some ''https://x.org/cat.png'')
       (Some ''json'')
     = (Inr (JsonResult sample_result),
        Download ''https://x.org/cat.png''
        # Upload ''https://api.proofly.ai/api/upload'' [1, 2, 3] ''cat.png'' (Some ''image/png'')
        # ?cs @ [GetResult ''https://api.proofly.ai/api/abc''])"
    by (simp add: sample_image sample_urls renderResult_def)
  from h2 a b c show ?thesis by simp
qed

section \<open>C8: processing, processing, done\<close>

text \<open>
  C8, as amended. When the upload returns the session identifier \<open>u\<close> and the status
  endpoint answers \<open>processing\<close>, \<open>processing\<close> and then \<open>done\<close> with an embedded
  result, the session resolves with that embedded result after the upload and exactly
  three status requests, each after a wait, and without a request for the full result.
\<close>

theorem scenario_processing_processing_done:
  assumes "u \<noteq> []" and "2 < maxRetries cfg"
    and "http_get_status R (statusUrl cfg u) 0 = Ok d0" and "st_status d0 = Some ''processing''"
    and "http_get_status R (statusUrl cfg u) 1 = Ok d1" and "st_status d1 = Some ''processing''"
    and "http_get_status R (statusUrl cfg u) 2 = Ok d2" and "st_status d2 = Some ''done''"
    and "st_result d2 = Some r"
    and "http_post_upload R (uploadUrl cfg) buf f ctype = Ok (Some u)"
  shows "submit cfg R buf f ctype =
           (Inr r, [Upload (uploadUrl cfg) buf f ctype,
                    Sleep (retryInterval cfg), GetStatus (statusUrl cfg u),
                    Sleep (retryInterval cfg), GetStatus (statusUrl cfg u),
                    Sleep (retryInterval cfg), GetStatus (statusUrl cfg u)])
    \<and> statusCalls (snd (submit cfg R buf f ctype)) = 3
    \<and> resultCalls (snd (submit cfg R buf f ctype)) = 0
    \<and> (b \<noteq> [] \<and> f \<noteq> [] \<and> decodeImage js b = Inr buf \<and> getContentTypeFromFilename f = ctype \<longrightarrow>
         fst (handleAnalyzeImage cfg js R (Some b) (Some f) fmt) = Inr (renderResult cfg js fmt r)
         \<and> statusCalls (snd (handleAnalyzeImage cfg js R (Some b) (Some f) fmt)) = 3)"
proof -
  have pend: "\<forall>j<2. pending_reply (http_get_status R (statusUrl cfg u) j)"
  proof (intro allI impI)
    fix j :: nat assume "j < 2"
    then have "j = 0 \<or> j = 1" by auto
    with assms(3-6) show "pending_reply (http_get_status R (statusUrl cfg u) j)"
      by (auto simp: pending_reply_def polling_def)
  qed
  have np: "\<not> polling (st_status d2)" using assms(8) by (simp add: polling_def)
  have cap: "captured (http_get_status R (statusUrl cfg u)) (Suc 2) None = Some r"
    using assms(7,9) by (rule captured_last)
  have ps: "pollSession cfg R u =
      (Inr \<lparr> cur_status = Some ''done'', attempts = 3, analysisResult = Some r \<rparr>,
       rounds cfg (statusUrl cfg u) 3)"
    using pollSession_stop[OF assms(2) pend assms(7) np] cap assms(8)
    by (simp add: numeral_3_eq_3)
  have aw: "awaitAnalysis cfg R (Some u) = (Inr r, rounds cfg (statusUrl cfg u) 3)"
    using ps assms(1) by (simp add: awaitAnalysis_polled finalResult_embedded)
  have r3: "rounds cfg (statusUrl cfg u) 3 =
      [Sleep (retryInterval cfg), GetStatus (statusUrl cfg u),
       Sleep (retryInterval cfg), GetStatus (statusUrl cfg u),
       Sleep (retryInterval cfg), GetStatus (statusUrl cfg u)]"
    by (simp add: rounds_def numeral_3_eq_3)
  have sub: "submit cfg R buf f ctype =
           (Inr r, [Upload (uploadUrl cfg) buf f ctype,
                    Sleep (retryInterval cfg), GetStatus (statusUrl cfg u),
                    Sleep (retryInterval cfg), GetStatus (statusUrl cfg u),
                    Sleep (retryInterval cfg), GetStatus (statusUrl cfg u)])"
    using aw assms(10) by (simp add: submit_uploaded r3)
  have n1: "statusCalls (snd (submit cfg R buf f ctype)) = 3"
    by (simp add: sub statusCalls_def)
  have n2: "resultCalls (snd (submit cfg R buf f ctype)) = 0"
    by (simp add: sub resultCalls_def)
  have h: "fst (handleAnalyzeImage cfg js R (Some b) (Some f) fmt) = Inr (renderResult cfg js fmt r)
         \<and> statusCalls (snd (handleAnalyzeImage cfg js R (Some b) (Some f) fmt)) = 3"
    if "b \<noteq> []" "f \<noteq> []" "decodeImage js b = Inr buf" "getContentTypeFromFilename f = ctype"
    using that sub by (simp add: handleAnalyzeImage_submitted statusCalls_def)
  from sub n1 n2 h show ?thesis by blast
qed

text \<open>An instance: the scenario with the identifier \<open>abc\<close>.\<close>

theorem scenario_processing_processing_done_witness:
  "submit PROOFLY_CONFIG
     (service (Ok (Some ''abc''))
        (script [status_reply ''processing'' None, status_reply ''processing'' None]
           (status_reply ''done'' (Some sample_result)))
        (Fail None ''no result''))
     (map of_char ''QUJD'') ''a.png'' (Some ''image/png'')
   = (Inr sample_result,
      [Upload ''https://api.proofly.ai/api/upload'' (map of_char ''QUJD'') ''a.png'' (Some ''image/png''),
       Sleep 2000, GetStatus ''https://api.proofly.ai/api/abc/status'',
       Sleep 2000, GetStatus ''https://api.proofly.ai/api/abc/status'',
       Sleep 2000, GetStatus ''https://api.proofly.ai/api/abc/status''])
   \<and> fst (handleAnalyzeImage PROOFLY_CONFIG sample_runtime
     (service (Ok (Some ''abc''))
        (script [status_reply ''processing'' None, status_reply ''processing'' None]
           (status_reply ''done'' (Some sample_result)))
        (Fail None ''no result''))
     (Some ''QUJD'') (Some ''a.png'') (Some ''json'')) = Inr (JsonResult sample_result)"
proof -
  let ?R = "service (Ok (Some ''abc''))
        (script [status_reply ''processing'' None, status_reply ''processing'' None]
           (status_reply ''done'' (Some sample_result)))
        (Fail None ''no result'')"
  let ?p = "\<lparr> st_status = Some ''processing'', st_result = None, st_message = None \<rparr>"
  let ?d = "\<lparr> st_status = Some ''done'', st_result = Some sample_result, st_message = None \<rparr>"
  have h1: "''abc'' \<noteq> []" and h2: "2 < maxRetries PROOFLY_CONFIG"
    by (simp_all add: PROOFLY_CONFIG_def)
  have h3: "http_get_status ?R (statusUrl PROOFLY_CONFIG ''abc'') 0 = Ok ?p"
    and h5: "http_get_status ?R (statusUrl PROOFLY_CONFIG ''abc'') 1 = Ok ?p"
    and h7: "http_get_status ?R (statusUrl PROOFLY_CONFIG ''abc'') 2 = Ok ?d"
    by (simp_all add: service_def script_def status_reply_def)
  have h4: "st_status ?p = Some ''processing''" and h8: "st_status ?d = Some ''done''"
    and h9: "st_result ?d = Some sample_result"
    by simp_all
  have h10: "http_post_upload ?R (uploadUrl PROOFLY_CONFIG) (map of_char ''QUJD'') ''a.png'' (Some ''image/png'')
      = Ok (Some ''abc'')"
    by (simp add: service_def)
  have g: "''QUJD'' \<noteq> [] \<and> ''a.png'' \<noteq> [] \<and> decodeImage sample_runtime ''QUJD'' = Inr (map of_char ''QUJD'')
      \<and> getContentTypeFromFilename ''a.png'' = Some ''image/png''"
    by (simp add: sample_image)
  have i: "retryInterval PROOFLY_CONFIG = 2000" by (simp add: PROOFLY_CONFIG_def)
  note r = scenario_processing_processing_done
     [OF h1 h2 h3 h4 h5 h4 h7 h8 h9 h10, where b = "''QUJD''" and js = sample_runtime
        and fmt = "Some ''json''"]
  from r have a: "submit PROOFLY_CONFIG ?R (map of_char ''QUJD'') ''a.png'' (Some ''image/png'')
   = (Inr sample_result,
      [Upload ''https://api.proofly.ai/api/upload'' (map of_char ''QUJD'') ''a.png'' (Some ''image/png''),
       Sleep 2000, GetStatus ''https://api.proofly.ai/api/abc/status'',
       Sleep 2000, GetStatus ''https://api.proofly.ai/api/abc/status'',
       Sleep 2000, GetStatus ''https://api.proofly.ai/api/abc/status''])"
    by (simp add: sample_urls i)
  from r g have b: "fst (handleAnalyzeImage PROOFLY_CONFIG sample_runtime ?R
     (Some ''QUJD'') (Some ''a.png'') (Some ''json'')) = Inr (JsonResult sample_result)"
    by (simp add: renderResult_def)
  from a b show ?thesis by simp
qed

text \<open>
  C8 as stated fails: in the scenario with the identifier \<open>abc\<close> the number of status
  requests after the upload is three, not two; the loop starts from a local status and
  asks once for each of the three replies.
\<close>

theorem scenario_makes_three_status_calls:
  "statusCalls (snd (submit PROOFLY_CONFIG
     (service (Ok (Some ''abc''))
        (script [status_reply ''processing'' None, status_reply ''processing'' None]
           (status_reply ''done'' (Some sample_result)))
        (Fail None ''no result''))
     (map of_char ''QUJD'') ''a.png'' (Some ''image/png''))) = 3
   \<and> statusCalls (snd (submit PROOFLY_CONFIG
     (service (Ok (Some ''abc''))
        (script [status_reply ''processing'' None, status_reply ''processing'' None]
           (status_reply ''done'' (Some sample_result)))
        (Fail None ''no result''))
     (map of_char ''QUJD'') ''a.png'' (Some ''image/png''))) \<noteq> 2
   \<and> fst (submit PROOFLY_CONFIG
     (service (Ok (Some ''abc''))
        (script [status_reply ''processing'' None, status_reply ''processing'' None]
           (status_reply ''done'' (Some sample_result)))
        (Fail None ''no result''))
     (map of_char ''QUJD'') ''a.png'' (Some ''image/png'')) = Inr sample_result"
  by (simp add: submit_def uploadImage_def awaitAnalysis_def andThen_def pollStatus.simps
        finalResult_def statusCalls_def service_def script_def status_reply_def polling_def
        PROOFLY_CONFIG_def)

section \<open>C9: the data URI prefix\<close>

text \<open>
  C9. For every base64 payload and every header \<open>data:image/...;base64,\<close> whose
  subtype has no comma, the image decoded from the payload with the header in front is
  the image decoded from the payload alone: the header is cut off before
  \<open>Buffer.from\<close> decodes. For a payload that is not empty \<open>handleAnalyzeImage\<close>
  then does the same with both, upload included.
\<close>

theorem data_uri_prefix_is_stripped:
  assumes "base64_payload payload" and "CHR '','' \<notin> set subtype"
  shows "decodeImage js (''data:image/'' @ subtype @ '';base64,'' @ payload)
           = Inr (base64_decode js payload)
    \<and> decodeImage js payload = Inr (base64_decode js payload)
    \<and> (payload \<noteq> [] \<longrightarrow>
         handleAnalyzeImage cfg js R (Some (''data:image/'' @ subtype @ '';base64,'' @ payload)) fname fmt
           = handleAnalyzeImage cfg js R (Some payload) fname fmt)"
proof -
  note a = decodeImage_data_uri[OF assms, of js]
  note b = decodeImage_plain[OF assms(1), of js]
  have c: "handleAnalyzeImage cfg js R (Some (''data:image/'' @ subtype @ '';base64,'' @ payload)) fname fmt
           = handleAnalyzeImage cfg js R (Some payload) fname fmt"
    if "payload \<noteq> []"
  proof -
    have f1: "falsy (Some (''data:image/'' @ subtype @ '';base64,'' @ payload)) = falsy (Some payload)"
      using that by simp
    have s1: "str_of (Some (''data:image/'' @ subtype @ '';base64,'' @ payload))
        = ''data:image/'' @ subtype @ '';base64,'' @ payload"
      and s2: "str_of (Some payload) = payload"
      by simp_all
    show ?thesis
      unfolding handleAnalyzeImage_def f1 s1 s2 a b ..
  qed
  from a b c show ?thesis by blast
qed

text \<open>An instance: the payload \<open>QUJD\<close> behind the header of a PNG image.\<close>

theorem data_uri_prefix_is_stripped_witness:
  "base64_payload ''QUJD''
   \<and> decodeImage sample_runtime ''data:image/png;base64,QUJD'' = Inr (map of_char ''QUJD'')
   \<and> decodeImage sample_runtime ''QUJD'' = Inr (map of_char ''QUJD'')
   \<and> handleAnalyzeImage PROOFLY_CONFIG sample_runtime
        (service (Ok (Some ''abc'')) (script [] (status_reply ''done'' (Some sample_result))) (Ok sample_result))
        (Some ''data:image/png;base64,QUJD'') (Some ''a.png'') (Some ''json'')
      = handleAnalyzeImage PROOFLY_CONFIG sample_runtime
        (service (Ok (Some ''abc'')) (script [] (status_reply ''done'' (Some sample_result))) (Ok sample_result))
        (Some ''QUJD'') (Some ''a.png'') (Some ''json'')"
proof -
  have h1: "base64_payload ''QUJD''" by (simp add: base64_payload_def base64_char_def)
  have h2: "CHR '','' \<notin> set ''png''" by simp
  have h3: "''QUJD'' \<noteq> []" by simp
  have d: "base64_decode sample_runtime ''QUJD'' = map of_char ''QUJD''"
    by (simp add: sample_runtime_def)
  from data_uri_prefix_is_stripped[OF h1 h2, of sample_runtime PROOFLY_CONFIG
         "service (Ok (Some ''abc'')) (script [] (status_reply ''done'' (Some sample_result))) (Ok sample_result)"
         "Some ''a.png''" "Some ''json''"] h1 h3 d
  show ?thesis by simp
qed

section \<open>C10: the parameter check of the face details\<close>

text \<open>
  C10. When \<open>sessionUuid\<close> is missing or empty, or \<open>faceIndex\<close> is not a number, or it
  is a negative number, \<open>handleGetFaceDetails\<close> fails with the \<open>InvalidParams\<close> error
  of line 505, which is not a not-found error, and makes no network call.
\<close>

theorem face_details_invalid_params_no_network:
  assumes "falsy sessionUuid \<or> \<not> is_number faceIndex \<or> (\<exists>i. faceIndex = JNum i \<and> i < 0)"
  shows "handleGetFaceDetails cfg js R sessionUuid faceIndex fmt =
           (Inl (McpError InvalidParams ''Missing or invalid sessionUuid or faceIndex parameter''), [])"
  using assms by (cases faceIndex) (auto simp: handleGetFaceDetails_def)

text \<open>Instances: the index \<open>-1\<close>, the string \<open>"0"\<close> as index, and no session identifier.\<close>

theorem face_details_invalid_params_no_network_witness:
  "handleGetFaceDetails PROOFLY_CONFIG sample_runtime
     (service (Ok (Some ''abc'')) (script [] (status_reply ''done'' None)) (Ok sample_result))
     (Some ''abc'') (JNum (- 1)) None
   = (Inl (McpError InvalidParams ''Missing or invalid sessionUuid or faceIndex parameter''), [])
   \<and> handleGetFaceDetails PROOFLY_CONFIG sample_runtime
     (service (Ok (Some ''abc'')) (script [] (status_reply ''done'' None)) (Ok sample_result))
     (Some ''abc'') (JStr ''0'') None
   = (Inl (McpError InvalidParams ''Missing or invalid sessionUuid or faceIndex parameter''), [])
   \<and> handleGetFaceDetails PROOFLY_CONFIG sample_runtime
     (service (Ok (Some ''abc'')) (script [] (status_reply ''done'' None)) (Ok sample_result))
     None (JNum 0) None
   = (Inl (McpError InvalidParams ''Missing or invalid sessionUuid or faceIndex parameter''), [])"
proof -
  let ?R = "service (Ok (Some ''abc'')) (script [] (status_reply ''done'' None)) (Ok sample_result)"
  have a: "falsy (Some ''abc'') \<or> \<not> is_number (JNum (- 1)) \<or> (\<exists>i. JNum (- 1) = JNum i \<and> i < 0)"
    by simp
  have b: "falsy (Some ''abc'') \<or> \<not> is_number (JStr ''0'') \<or> (\<exists>i. JStr ''0'' = JNum i \<and> i < 0)"
    by simp
  have c: "falsy None \<or> \<not> is_number (JNum 0) \<or> (\<exists>i. JNum 0 = JNum i \<and> i < 0)"
    by simp
  from face_details_invalid_params_no_network[OF a, of PROOFLY_CONFIG sample_runtime ?R None]
       face_details_invalid_params_no_network[OF b, of PROOFLY_CONFIG sample_runtime ?R None]
       face_details_invalid_params_no_network[OF c, of PROOFLY_CONFIG sample_runtime ?R None]
  show ?thesis by blast
qed

end
